theory Spec2Isabelle
  imports Main
begin

section \<open>Syntax nodes\<close>

text \<open>
  The elaborator reads a syntax tree that the parser built. An atom carries its token
  (source location and spelling); a call has a callee and an argument node; a list and a
  file hold their children in order; a macro is a keyword-tagged block. The source keys
  its tables by node address: here two nodes are the same node when they are equal, and
  the token locations keep nodes written at different places apart.
\<close>

datatype Syntax =
    AtomSyntax nat string
  | CallSyntax Syntax Syntax
  | ListSyntax "Syntax list"
  | MacroSyntax Syntax Syntax
  | FileSyntax "Syntax list"

text \<open>A failed \<^verbatim>\<open>assert\<close>, a failed \<^verbatim>\<open>cast<>\<close> or a null dereference ends the run.\<close>

datatype error = Assertion string

definition OperatorColon :: string where
  "OperatorColon = ''operator'' @ [CHR 0x27, CHR '':'', CHR 0x27]"

definition OperatorEquals :: string where
  "OperatorEquals = ''operator'' @ [CHR 0x27, CHR ''='', CHR 0x27]"

definition OperatorExclaim :: string where
  "OperatorExclaim = ''operator'' @ [CHR 0x27, CHR ''!'', CHR 0x27]"

definition OperatorCaret :: string where
  "OperatorCaret = ''operator'' @ [CHR 0x27, CHR ''^'', CHR 0x27]"

fun isAtomSyntax :: "Syntax \<Rightarrow> bool" where
  "isAtomSyntax (AtomSyntax l sp) = True"
| "isAtomSyntax s = False"

fun isCallSyntax :: "Syntax \<Rightarrow> bool" where
  "isCallSyntax (CallSyntax c a) = True"
| "isCallSyntax s = False"

fun children :: "Syntax \<Rightarrow> Syntax list" where
  "children (AtomSyntax l sp) = []"
| "children (CallSyntax c a) = [c, a]"
| "children (ListSyntax xs) = xs"
| "children (MacroSyntax c b) = [c, b]"
| "children (FileSyntax xs) = xs"

text \<open>\<^verbatim>\<open>cast<ListSyntax>(Args)->getChild(N)\<close>: the cast and the index are both checked.\<close>

fun getChild :: "Syntax \<Rightarrow> nat \<Rightarrow> error + Syntax" where
  "getChild (ListSyntax xs) n =
     (if n < length xs then Inr (xs ! n) else Inl (Assertion ''getChild: index out of range''))"
| "getChild s n = Inl (Assertion ''cast<ListSyntax>'')"

fun getArgument :: "Syntax \<Rightarrow> nat \<Rightarrow> error + Syntax" where
  "getArgument (CallSyntax c a) n = getChild a n"
| "getArgument s n = Inl (Assertion ''cast<CallSyntax>'')"

section \<open>Scopes, declarators, declarations\<close>

datatype ScopeKind = SK_Namespace | SK_Parameter | SK_Function | SK_Block | SK_Class

text \<open>
  Modelled from the spec: the scope class is declared in a header that is not among the
  sources. A scope has a kind tag, an anchoring syntax node and the declarations bound
  in it (addresses into the declaration store, most recent binding first); its parent
  is the next scope of the scope stack.
\<close>

record Scope =
  SK :: ScopeKind
  Anchor :: Syntax
  DeclMap :: "nat list"

datatype DeclaratorKind =
  DK_Identifier | DK_Type | DK_Pointer | DK_Function | DK_TemplateParams

datatype DeclaratorData =
    NoData
  | Data_Id Syntax
  | Data_Type "Syntax option"
  | Data_ParamInfo Syntax "Scope option"

text \<open>
  One fragment of a declarator, with the members the sources read and write: its kind,
  the call it was built from and the payload of its kind (the identifier syntax, the type
  syntax, or the parameter list with the parameter scope constructed for it). The source
  links fragments through \<^verbatim>\<open>Next\<close>; a chain is the list of its fragments, and the null
  chain is the empty list.
\<close>

record Declarator =
  Kind :: DeclaratorKind
  Call :: "Syntax option"
  Data :: DeclaratorData

text \<open>
  A declaration, with the members the sources read and write: the enclosing declaration,
  the syntax node it was made for, its declarator chain, its initializer, its identifier,
  the cached function fragment (which \<^verbatim>\<open>declaresFunction\<close> returns and which nothing in the
  sources assigns), the saved scope, the foreign object (absent until type elaboration
  sets it) and the two links of the redeclaration chain.
\<close>

record Declaration =
  Cxt :: "nat option"
  Op :: Syntax
  Decl :: "Declarator list"
  Init :: "Syntax option"
  DeclId :: "string option"
  FunctionDcl :: "Declarator option"
  SavedScope :: "Scope option"
  Cxx :: "nat option"
  First :: nat
  Next :: nat

section \<open>The host compiler's objects\<close>

datatype CxxDeclKind = K_TranslationUnit | K_Function | K_Var | K_ParmVar

datatype StorageClass = SC_None | SC_Extern | SC_Static | SC_Auto

datatype QualType = NamedType string | AutoType

datatype Expression = ExprPtr nat | TypeSourceInfoPtr QualType

datatype DeduceAutoResult = DAR_Succeeded | DAR_Failed | DAR_FailedAlreadyDiagnosed

datatype diag = err_failed_to_translate_type

text \<open>
  A declaration object of the host compiler. \<open>Loc\<close> is the syntax node the location
  was read from; \<open>Members\<close> is the order in which \<^verbatim>\<open>addDecl\<close> added declarations to it
  as a declaration context.
\<close>

record CxxDecl =
  DeclKind :: CxxDeclKind
  Owner :: "nat option"
  Loc :: "Syntax option"
  Name :: "string option"
  Ty :: "QualType option"
  Storage :: StorageClass
  Params :: "nat list"
  Body :: "nat option"
  Members :: "nat list"

text \<open>
  The state the elaborator works on: the store of declarations (a declaration pointer is
  an index into it), the scope stack and the declaration stack of the semantic context,
  the host compiler's objects in creation order (a foreign handle is an index), the
  diagnostics reported and the lines written to the error stream.
\<close>

record Sema =
  Decls :: "Declaration list"
  ScopeStack :: "Scope list"
  DeclStack :: "nat list"
  CxxAST :: "CxxDecl list"
  TranslationUnitDecl :: nat
  FunctionScopes :: nat
  Diags :: "(Syntax \<times> diag) list"
  Errs :: "string list"

text \<open>
  The collaborators the elaborator calls and that are not among the sources: the tag-name
  lookup of the semantic context, the \<^verbatim>\<open>getType\<close> accessor of the declarator header, the
  type, expression and statement elaborators and the host compiler's semantic services.
  They are parameters of the model; those that can change the state return the new one.
\<close>

record Externals =
  lookupUnqualifiedName :: "Sema \<Rightarrow> string \<Rightarrow> bool"
  getType :: "Declarator list \<Rightarrow> Syntax option"
  elaborateTypeExpr :: "Sema \<Rightarrow> Declarator list \<Rightarrow> Sema \<times> QualType option"
  CheckMain :: "Sema \<Rightarrow> nat \<Rightarrow> Sema"
  checkForRedefinition :: "Sema \<Rightarrow> nat \<Rightarrow> Sema \<times> bool"
  elaborateExpr :: "Sema \<Rightarrow> Syntax \<Rightarrow> Sema \<times> Expression"
  elaborateBlock :: "Sema \<Rightarrow> Syntax \<Rightarrow> Sema \<times> nat option"
  DeduceAutoType :: "Sema \<Rightarrow> nat \<Rightarrow> nat \<Rightarrow> DeduceAutoResult \<times> QualType"
  AddInitializerToDecl :: "Sema \<Rightarrow> nat \<Rightarrow> nat \<Rightarrow> Sema"

section \<open>The declarator builder\<close>

definition buildIdDeclarator :: "Syntax \<Rightarrow> Declarator list \<Rightarrow> Declarator list" where
  "buildIdDeclarator S Nxt = \<lparr>Kind = DK_Identifier, Call = None, Data = Data_Id S\<rparr> # Nxt"

definition buildTypeDeclarator ::
  "Externals \<Rightarrow> Syntax \<Rightarrow> Declarator list \<Rightarrow> error + Declarator list" where
  "buildTypeDeclarator ext S Nxt =
     (if \<not> (isAtomSyntax S \<or> isCallSyntax S)
      then Inl (Assertion ''cannot build type-declarator out of given syntax'')
      else if isCallSyntax S then
        (if Nxt \<noteq> [] then
           Inr (\<lparr>Kind = DK_Type, Call = Some S, Data = Data_Type (getType ext Nxt)\<rparr> # Nxt)
         else
           (case getArgument S 1 of
              Inl e \<Rightarrow> Inl e
            | Inr T \<Rightarrow> Inr (\<lparr>Kind = DK_Type, Call = Some S, Data = Data_Type (Some T)\<rparr> # Nxt)))
      else Inr (\<lparr>Kind = DK_Type, Call = None, Data = Data_Type (Some S)\<rparr> # Nxt))"

definition buildFunctionDeclarator :: "Syntax \<Rightarrow> Syntax \<Rightarrow> Declarator list \<Rightarrow> Declarator list" where
  "buildFunctionDeclarator S Args Nxt =
     \<lparr>Kind = DK_Function, Call = Some S, Data = Data_ParamInfo Args None\<rparr> # Nxt"

definition buildPointerDeclarator :: "Syntax \<Rightarrow> Declarator list \<Rightarrow> Declarator list" where
  "buildPointerDeclarator S Nxt = \<lparr>Kind = DK_Pointer, Call = Some S, Data = NoData\<rparr> # Nxt"

text \<open>A child of a list is smaller than the list: the builder's recursion ends.\<close>

lemma getChild_size: "getChild a n = Inr x \<Longrightarrow> size x < size a"
proof (cases a)
  case (ListSyntax xs)
  assume "getChild a n = Inr x"
  with ListSyntax have "x \<in> set xs"
    by (auto split: if_splits)
  then have "size x \<le> size_list size xs"
    by (simp add: size_list_estimation')
  with ListSyntax show ?thesis by simp
qed auto

function makeDeclarator ::
  "Externals \<Rightarrow> Sema \<Rightarrow> Syntax \<Rightarrow> Declarator list \<Rightarrow> error + Declarator list" where
  "makeDeclarator ext st (AtomSyntax l sp) Nxt =
     (if lookupUnqualifiedName ext st sp
      then buildTypeDeclarator ext (AtomSyntax l sp) Nxt
      else Inr (buildIdDeclarator (AtomSyntax l sp) Nxt))"
| "makeDeclarator ext st (CallSyntax Callee Args) Nxt =
     (case Callee of
        AtomSyntax l sp \<Rightarrow>
          if sp = OperatorColon then
            (case getChild Args 1 of
               Inl e \<Rightarrow> Inl e
             | Inr A1 \<Rightarrow>
                 if isCallSyntax A1 then
                   (case makeDeclarator ext st A1 Nxt of
                      Inl e \<Rightarrow> Inl e
                    | Inr Nxt1 \<Rightarrow>
                        (case getChild Args 0 of
                           Inl e \<Rightarrow> Inl e
                         | Inr A0 \<Rightarrow> makeDeclarator ext st A0 Nxt1))
                 else
                   (case getChild Args 0 of
                      Inl e \<Rightarrow> Inl e
                    | Inr A0 \<Rightarrow>
                        (case buildTypeDeclarator ext (CallSyntax Callee Args) Nxt of
                           Inl e \<Rightarrow> Inl e
                         | Inr T \<Rightarrow> makeDeclarator ext st A0 T)))
          else if sp = OperatorCaret then
            (case getChild Args 0 of
               Inl e \<Rightarrow> Inl e
             | Inr A0 \<Rightarrow>
                 (case makeDeclarator ext st A0 Nxt of
                    Inl e \<Rightarrow> Inl e
                  | Inr Nxt1 \<Rightarrow> Inr (buildPointerDeclarator (CallSyntax Callee Args) Nxt1)))
          else
            makeDeclarator ext st Callee
              (buildFunctionDeclarator (CallSyntax Callee Args) Args Nxt)
      | _ \<Rightarrow> Inl (Assertion ''cast<AtomSyntax>''))"
| "makeDeclarator ext st (ListSyntax xs) Nxt = Inr []"
| "makeDeclarator ext st (MacroSyntax c b) Nxt = Inr []"
| "makeDeclarator ext st (FileSyntax xs) Nxt = Inr []"
  by pat_completeness auto
termination
  by (relation "measure (\<lambda>(ext, st, S, Nxt). size S)") (auto dest: getChild_size)

definition makeDeclarator0 :: "Externals \<Rightarrow> Sema \<Rightarrow> Syntax \<Rightarrow> error + Declarator list" where
  "makeDeclarator0 ext st S = makeDeclarator ext st S []"

section \<open>The declaration store and the scope stack\<close>

definition isIdentifier :: "Declarator list \<Rightarrow> bool" where
  "isIdentifier D = (case D of [] \<Rightarrow> False | d # Nxt \<Rightarrow> Kind d = DK_Identifier)"

definition isFunction :: "Declarator list \<Rightarrow> bool" where
  "isFunction D = (case D of [] \<Rightarrow> False | d # Nxt \<Rightarrow> Kind d = DK_Function)"

text \<open>
  Modelled from the spec: the accessor \<^verbatim>\<open>Declarator::getId\<close> is declared in a header that
  is not among the sources. It gives the identifier syntax of an Identifier fragment and
  null for any other fragment.
\<close>

definition getId :: "Declarator list \<Rightarrow> Syntax option" where
  "getId D =
     (case D of
        [] \<Rightarrow> None
      | d # Nxt \<Rightarrow>
          (if Kind d = DK_Identifier
           then (case Data d of Data_Id S \<Rightarrow> Some S | _ \<Rightarrow> None)
           else None))"

definition getIdentifier :: "Declarator list \<Rightarrow> string option" where
  "getIdentifier D = (case getId D of Some (AtomSyntax l sp) \<Rightarrow> Some sp | _ \<Rightarrow> None)"

definition isNamespaceScope :: "Scope \<Rightarrow> bool" where
  "isNamespaceScope sc = (SK sc = SK_Namespace)"

definition isParameterScope :: "Scope \<Rightarrow> bool" where
  "isParameterScope sc = (SK sc = SK_Parameter)"

definition isBlockScope :: "Scope \<Rightarrow> bool" where
  "isBlockScope sc = (SK sc = SK_Block)"

text \<open>
  Modelled from the spec: the scope's lookups are declared in the missing scope header.
  \<open>findDecl\<close> by name walks the parent links to the nearest binding, or finds nothing;
  within one scope the most recent binding of the name is the one found. \<open>findDeclSyntax\<close>
  gives the declaration of the current scope that was made for a syntax node.
\<close>

fun findDecl :: "Declaration list \<Rightarrow> Scope list \<Rightarrow> string option \<Rightarrow> nat option" where
  "findDecl ds [] Ident = None"
| "findDecl ds (sc # Parents) Ident =
     (case Ident of
        None \<Rightarrow> None
      | Some x \<Rightarrow>
          (case find (\<lambda>a. a < length ds \<and> DeclId (ds ! a) = Some x) (DeclMap sc) of
             Some a \<Rightarrow> Some a
           | None \<Rightarrow> findDecl ds Parents Ident))"

definition findDeclSyntax :: "Declaration list \<Rightarrow> Scope \<Rightarrow> Syntax \<Rightarrow> nat option" where
  "findDeclSyntax ds sc S = find (\<lambda>a. a < length ds \<and> Op (ds ! a) = S) (DeclMap sc)"

text \<open>
  Modelled from the spec: \<^verbatim>\<open>Sema::getCurrentDecl\<close>, \<^verbatim>\<open>pushDecl\<close>, \<^verbatim>\<open>popDecl\<close>,
  \<^verbatim>\<open>enterScope\<close>, \<^verbatim>\<open>leaveScope\<close>, \<^verbatim>\<open>pushScope\<close> and \<^verbatim>\<open>popScope\<close> belong to the semantic
  context, which is not among the sources. Entering opens a scope whose parent is the
  current top; leaving closes it; leaving a scope that is not the current one is a fatal
  internal error.
\<close>

definition getCurrentDecl :: "Sema \<Rightarrow> nat option" where
  "getCurrentDecl st = (case DeclStack st of [] \<Rightarrow> None | d # ds \<Rightarrow> Some d)"

definition pushDecl :: "Sema \<Rightarrow> nat \<Rightarrow> Sema" where
  "pushDecl st D = st\<lparr>DeclStack := D # DeclStack st\<rparr>"

definition popDecl :: "Sema \<Rightarrow> error + Sema" where
  "popDecl st =
     (case DeclStack st of
        [] \<Rightarrow> Inl (Assertion ''popDecl: no current declaration'')
      | d # ds \<Rightarrow> Inr (st\<lparr>DeclStack := ds\<rparr>))"

definition pushScope :: "Sema \<Rightarrow> Scope \<Rightarrow> Sema" where
  "pushScope st sc = st\<lparr>ScopeStack := sc # ScopeStack st\<rparr>"

definition popScope :: "Sema \<Rightarrow> error + Sema" where
  "popScope st =
     (case ScopeStack st of
        [] \<Rightarrow> Inl (Assertion ''popScope: no current scope'')
      | sc # Parents \<Rightarrow> Inr (st\<lparr>ScopeStack := Parents\<rparr>))"

definition enterScope :: "Sema \<Rightarrow> ScopeKind \<Rightarrow> Syntax \<Rightarrow> Sema" where
  "enterScope st K S = pushScope st \<lparr>SK = K, Anchor = S, DeclMap = []\<rparr>"

definition leaveScope :: "Sema \<Rightarrow> Syntax \<Rightarrow> error + Sema" where
  "leaveScope st S =
     (case ScopeStack st of
        [] \<Rightarrow> Inl (Assertion ''leaveScope: no current scope'')
      | sc # Parents \<Rightarrow>
          (if Anchor sc = S then Inr (st\<lparr>ScopeStack := Parents\<rparr>)
           else Inl (Assertion ''leaveScope: scope imbalance'')))"

text \<open>
  Modelled from the spec: \<^verbatim>\<open>Scope::addDecl\<close> binds the declaration in the current scope; a
  later binding of a name is found before an earlier one.
\<close>

definition addDecl :: "Sema \<Rightarrow> nat \<Rightarrow> error + Sema" where
  "addDecl st D =
     (case ScopeStack st of
        [] \<Rightarrow> Inl (Assertion ''no current scope'')
      | sc # Parents \<Rightarrow>
          Inr (st\<lparr>ScopeStack := sc\<lparr>DeclMap := D # DeclMap sc\<rparr> # Parents\<rparr>))"

text \<open>
  Modelled from the spec: the constructors of \<^verbatim>\<open>Declaration\<close> are in the missing header. A
  new declaration has no foreign object and no cached function fragment, and it is the
  first and only member of its own redeclaration chain.
\<close>

definition newDeclaration ::
  "nat \<Rightarrow> nat option \<Rightarrow> Syntax \<Rightarrow> Declarator list \<Rightarrow> Syntax option \<Rightarrow> Declaration" where
  "newDeclaration This Parent S Dcl Ini =
     \<lparr>Cxt = Parent, Op = S, Decl = Dcl, Init = Ini, DeclId = None, FunctionDcl = None, SavedScope = None,
      Cxx = None, First = This, Next = This\<rparr>"

text \<open>
  \<^verbatim>\<open>Declaration::setPreviousDecl\<close>: \<^verbatim>\<open>Prev->Next = this; First = Prev->First; Next = First;\<close>
\<close>

definition setPreviousDecl :: "Sema \<Rightarrow> nat \<Rightarrow> nat \<Rightarrow> Sema" where
  "setPreviousDecl st This Prev =
     (let ds1 = (Decls st)[Prev := (Decls st ! Prev)\<lparr>Next := This\<rparr>];
          F = First (ds1 ! Prev);
          ds2 = ds1[This := (ds1 ! This)\<lparr>First := F\<rparr>];
          ds3 = ds2[This := (ds2 ! This)\<lparr>Next := First (ds2 ! This)\<rparr>]
      in st\<lparr>Decls := ds3\<rparr>)"

section \<open>Identification\<close>

text \<open>
  The first half of \<^verbatim>\<open>Elaborator::identifyDecl\<close>: unpacking the declarator and the
  initializer of a call to one of the three declaring operators. The result is the
  declarator syntax, the initializer and whether the operator is the assignment; no
  result means that the node is syntactically not a declaration.
\<close>

definition unpackDeclarator ::
  "Sema \<Rightarrow> Syntax \<Rightarrow> string \<Rightarrow> Syntax \<Rightarrow> error + (Syntax \<times> Syntax option \<times> bool) option" where
  "unpackDeclarator st S Opr Args =
     (if Opr = OperatorEquals then
        (case getChild Args 0 of
           Inl e \<Rightarrow> Inl e
         | Inr D \<Rightarrow>
             (case getChild Args 1 of
                Inl e \<Rightarrow> Inl e
              | Inr I \<Rightarrow> Inr (Some (D, Some I, True))))
      else if Opr = OperatorExclaim then
        (case Args of
           ListSyntax xs \<Rightarrow>
             (case ScopeStack st of
                [] \<Rightarrow> Inl (Assertion ''no current scope'')
              | CurScope # Parents \<Rightarrow>
                  if isParameterScope CurScope then Inl (Assertion ''Function definition'')
                  else
                    (case getChild Args 0 of
                       Inl e \<Rightarrow> Inl e
                     | Inr D \<Rightarrow>
                         (case getChild Args 1 of
                            Inl e \<Rightarrow> Inl e
                          | Inr I \<Rightarrow> Inr (Some (D, Some I, False)))))
         | _ \<Rightarrow> Inl (Assertion ''cast<ListSyntax>''))
      else if Opr = OperatorColon then Inr (Some (S, None, False))
      else Inr None)"

text \<open>
  The second half: build the declarator, apply the parameter-scope restriction and the
  block-scope re-assignment rule, create the declaration, chain a redeclaration and bind
  the declaration in the current scope.
\<close>

definition declareIn ::
  "Externals \<Rightarrow> Sema \<Rightarrow> Syntax \<Rightarrow> Syntax \<Rightarrow> Syntax option \<Rightarrow> bool \<Rightarrow> error + Sema" where
  "declareIn ext st S D Ini OperatorEq =
     (case makeDeclarator0 ext st D of
        Inl e \<Rightarrow> Inl e
      | Inr Dcl \<Rightarrow>
          if Dcl = [] then Inr st
          else
            (case ScopeStack st of
               [] \<Rightarrow> Inl (Assertion ''no current scope'')
             | CurScope # Parents \<Rightarrow>
                 if isParameterScope CurScope \<and> \<not> isIdentifier Dcl
                 then Inl (Assertion ''Invalid parameter declaration'')
                 else
                   (let Ident = getIdentifier Dcl in
                    if isBlockScope CurScope
                       \<and> findDecl (Decls st) (CurScope # Parents) Ident \<noteq> None \<and> OperatorEq
                    then Inr st
                    else
                      (let This = length (Decls st);
                           TheDecl = (newDeclaration This (getCurrentDecl st) S Dcl Ini)
                                       \<lparr>DeclId := Ident\<rparr>;
                           st1 = st\<lparr>Decls := Decls st @ [TheDecl]\<rparr>;
                           st2 =
                             (if isNamespaceScope CurScope \<or> isParameterScope CurScope then
                                (case findDecl (Decls st1) (CurScope # Parents) Ident of
                                   Some OldDecl \<Rightarrow> setPreviousDecl st1 This OldDecl
                                 | None \<Rightarrow> st1)
                              else st1)
                       in addDecl st2 This))))"

definition identifyDecl :: "Externals \<Rightarrow> Sema \<Rightarrow> Syntax \<Rightarrow> error + Sema" where
  "identifyDecl ext st S =
     (case S of
        CallSyntax Callee Args \<Rightarrow>
          (case Callee of
             AtomSyntax l Opr \<Rightarrow>
               (case unpackDeclarator st S Opr Args of
                  Inl e \<Rightarrow> Inl e
                | Inr None \<Rightarrow> Inr st
                | Inr (Some (D, Ini, OperatorEq)) \<Rightarrow> declareIn ext st S D Ini OperatorEq)
           | _ \<Rightarrow> Inr st)
      | _ \<Rightarrow> Inr st)"

section \<open>Type elaboration\<close>

text \<open>
  \<^verbatim>\<open>Declaration::declaresFunction\<close> is \<^verbatim>\<open>return FunctionDcl;\<close>: the declaration declares a
  function when its cached function fragment is set.
\<close>

definition declaresFunction :: "Declaration \<Rightarrow> bool" where
  "declaresFunction D = (FunctionDcl D \<noteq> None)"

definition getFunctionDeclarator :: "Declarator list \<Rightarrow> error + Declarator" where
  "getFunctionDeclarator D =
     (if D = [] then Inl (Assertion ''D->Decl'')
      else if \<not> isIdentifier D then Inl (Assertion ''D->isIdentifier()'')
      else
        (case tl D of
           [] \<Rightarrow> Inl (Assertion ''D->Next->isFunction()'')
         | f # Nxt \<Rightarrow>
             if Kind f = DK_Function then Inr f else Inl (Assertion ''D->Next->isFunction()'')))"

fun paramDecls ::
  "Declaration list \<Rightarrow> CxxDecl list \<Rightarrow> Scope option \<Rightarrow> Syntax list \<Rightarrow> error + nat list" where
  "paramDecls ds cxx ParamScope [] = Inr []"
| "paramDecls ds cxx ParamScope (P # Ps) =
     (case ParamScope of
        None \<Rightarrow> Inl (Assertion ''null parameter scope'')
      | Some sc \<Rightarrow>
          (case findDeclSyntax ds sc P of
             None \<Rightarrow> Inl (Assertion ''No corresponding declaration'')
           | Some PD \<Rightarrow>
               (case Cxx (ds ! PD) of
                  None \<Rightarrow> Inl (Assertion ''No corresponding declaration'')
                | Some c \<Rightarrow>
                    if c < length cxx \<and> DeclKind (cxx ! c) = K_ParmVar then
                      (case paramDecls ds cxx ParamScope Ps of
                         Inl e \<Rightarrow> Inl e
                       | Inr cs \<Rightarrow> Inr (c # cs))
                    else Inl (Assertion ''cast<ParmVarDecl>''))))"

definition getFunctionParameters :: "Sema \<Rightarrow> nat \<Rightarrow> error + nat list" where
  "getFunctionParameters st D =
     (case getFunctionDeclarator (Decl (Decls st ! D)) of
        Inl e \<Rightarrow> Inl e
      | Inr FnDecl \<Rightarrow>
          (case Data FnDecl of
             Data_ParamInfo ParamList ParamScope \<Rightarrow>
               paramDecls (Decls st) (CxxAST st) ParamScope (children ParamList)
           | _ \<Rightarrow> Inl (Assertion ''no parameter information'')))"

text \<open>
  Modelled from the spec: \<^verbatim>\<open>Sema::getCurrentCxxDeclContext\<close> is not among the sources.
  The declaration context is the foreign object of the current declaration; the root
  declaration's foreign handle is the translation unit itself.
\<close>

definition getCurrentCxxDeclContext :: "Sema \<Rightarrow> error + nat option" where
  "getCurrentCxxDeclContext st =
     (case getCurrentDecl st of
        None \<Rightarrow> Inl (Assertion ''no current declaration'')
      | Some d \<Rightarrow>
          if d < length (Decls st) then Inr (Cxx (Decls st ! d))
          else Inl (Assertion ''no current declaration''))"

definition Report :: "Sema \<Rightarrow> Syntax \<Rightarrow> diag \<Rightarrow> Sema" where
  "Report st L d = st\<lparr>Diags := Diags st @ [(L, d)]\<rparr>"

definition Create :: "Sema \<Rightarrow> CxxDecl \<Rightarrow> Sema \<times> nat" where
  "Create st node = (st\<lparr>CxxAST := CxxAST st @ [node]\<rparr>, length (CxxAST st))"

text \<open>\<^verbatim>\<open>Owner->addDecl(X)\<close>: the context records its members in the order they are added.\<close>

definition addDeclToContext :: "Sema \<Rightarrow> nat option \<Rightarrow> nat \<Rightarrow> error + Sema" where
  "addDeclToContext st Ownr X =
     (case Ownr of
        None \<Rightarrow> Inl (Assertion ''null declaration context'')
      | Some c \<Rightarrow>
          if c < length (CxxAST st) then
            Inr (st\<lparr>CxxAST := (CxxAST st)[c := (CxxAST st ! c)
                      \<lparr>Members := Members (CxxAST st ! c) @ [X]\<rparr>]\<rparr>)
          else Inl (Assertion ''null declaration context''))"

definition setCxx :: "Sema \<Rightarrow> nat \<Rightarrow> nat \<Rightarrow> Sema" where
  "setCxx st D X = st\<lparr>Decls := (Decls st)[D := (Decls st ! D)\<lparr>Cxx := Some X\<rparr>]\<rparr>"

definition setParams :: "Sema \<Rightarrow> nat \<Rightarrow> nat list \<Rightarrow> Sema" where
  "setParams st FD Ps = st\<lparr>CxxAST := (CxxAST st)[FD := (CxxAST st ! FD)\<lparr>Params := Ps\<rparr>]\<rparr>"

definition setBody :: "Sema \<Rightarrow> nat \<Rightarrow> nat option \<Rightarrow> Sema" where
  "setBody st FD B = st\<lparr>CxxAST := (CxxAST st)[FD := (CxxAST st ! FD)\<lparr>Body := B\<rparr>]\<rparr>"

definition setType :: "Sema \<Rightarrow> nat \<Rightarrow> QualType \<Rightarrow> Sema" where
  "setType st VD T = st\<lparr>CxxAST := (CxxAST st)[VD := (CxxAST st ! VD)\<lparr>Ty := Some T\<rparr>]\<rparr>"

text \<open>
  The host compiler's own queries and its stack of function scopes are not among the
  sources either. A function is the program's entry when it is named \<open>main\<close>; a type is
  undeduced when it is the placeholder; of the function-scope stack the state keeps the
  depth.
\<close>

definition isMain :: "CxxDecl \<Rightarrow> bool" where
  "isMain FD = (Name FD = Some ''main'')"

definition isUndeducedType :: "QualType option \<Rightarrow> bool" where
  "isUndeducedType T = (T = Some AutoType)"

definition PushFunctionScope :: "Sema \<Rightarrow> Sema" where
  "PushFunctionScope st = st\<lparr>FunctionScopes := FunctionScopes st + 1\<rparr>"

definition PopFunctionScopeInfo :: "Sema \<Rightarrow> Sema" where
  "PopFunctionScopeInfo st = st\<lparr>FunctionScopes := FunctionScopes st - 1\<rparr>"

definition elaborateFunctionDecl :: "Externals \<Rightarrow> Sema \<Rightarrow> nat \<Rightarrow> error + (Sema \<times> nat option)" where
  "elaborateFunctionDecl ext st D =
     (case getCurrentCxxDeclContext st of
        Inl e \<Rightarrow> Inl e
      | Inr Ownr \<Rightarrow>
          (case elaborateTypeExpr ext st (Decl (Decls st ! D)) of
             (st1, None) \<Rightarrow>
               Inr (Report st1 (Op (Decls st1 ! D)) err_failed_to_translate_type, None)
           | (st1, Some TInfo) \<Rightarrow>
               (let node = \<lparr>DeclKind = K_Function, Owner = Ownr,
                             Loc = Some (Op (Decls st1 ! D)), Name = DeclId (Decls st1 ! D),
                             Ty = Some TInfo, Storage = SC_Extern, Params = [], Body = None,
                             Members = []\<rparr>;
                    (st2, FD) = Create st1 node;
                    st3 = (if isMain node then CheckMain ext st2 FD else st2)
                in
                  (case getFunctionParameters st3 D of
                     Inl e \<Rightarrow> Inl e
                   | Inr Ps \<Rightarrow>
                       (case addDeclToContext (setParams st3 FD Ps) Ownr FD of
                          Inl e \<Rightarrow> Inl e
                        | Inr st4 \<Rightarrow> Inr (PushFunctionScope (setCxx st4 D FD), Some FD))))))"

definition getStorageClass :: "Sema \<Rightarrow> error + StorageClass" where
  "getStorageClass st =
     (case ScopeStack st of
        [] \<Rightarrow> Inl (Assertion ''no current scope'')
      | CurScope # Parents \<Rightarrow> Inr (if isBlockScope CurScope then SC_Auto else SC_Static))"

definition elaborateParameterDecl :: "Externals \<Rightarrow> Sema \<Rightarrow> nat \<Rightarrow> error + (Sema \<times> nat option)" where
  "elaborateParameterDecl ext st D =
     (case getCurrentCxxDeclContext st of
        Inl e \<Rightarrow> Inl e
      | Inr Ownr \<Rightarrow>
          (case elaborateTypeExpr ext st (Decl (Decls st ! D)) of
             (st1, None) \<Rightarrow>
               Inr (Report st1 (Op (Decls st1 ! D)) err_failed_to_translate_type, None)
           | (st1, Some TInfo) \<Rightarrow>
               (let node = \<lparr>DeclKind = K_ParmVar, Owner = Ownr,
                             Loc = Some (Op (Decls st1 ! D)), Name = DeclId (Decls st1 ! D),
                             Ty = Some TInfo, Storage = SC_None, Params = [], Body = None,
                             Members = []\<rparr>;
                    (st2, P) = Create st1 node
                in Inr (setCxx st2 D P, Some P))))"

definition elaborateVariableDecl :: "Externals \<Rightarrow> Sema \<Rightarrow> nat \<Rightarrow> error + (Sema \<times> nat option)" where
  "elaborateVariableDecl ext st D =
     (case ScopeStack st of
        [] \<Rightarrow> Inl (Assertion ''no current scope'')
      | CurScope # Parents \<Rightarrow>
          if isParameterScope CurScope then elaborateParameterDecl ext st D
          else
            (case getCurrentCxxDeclContext st of
               Inl e \<Rightarrow> Inl e
             | Inr Ownr \<Rightarrow>
                 (case elaborateTypeExpr ext st (Decl (Decls st ! D)) of
                    (st1, None) \<Rightarrow>
                      Inr (Report st1 (Op (Decls st1 ! D)) err_failed_to_translate_type, None)
                  | (st1, Some TInfo) \<Rightarrow>
                      (case getStorageClass st1 of
                         Inl e \<Rightarrow> Inl e
                       | Inr StC \<Rightarrow>
                           (let node = \<lparr>DeclKind = K_Var, Owner = Ownr,
                                         Loc = Some (Op (Decls st1 ! D)),
                                         Name = DeclId (Decls st1 ! D), Ty = Some TInfo,
                                         Storage = StC, Params = [], Body = None,
                                         Members = []\<rparr>;
                                (st2, VD) = Create st1 node
                            in
                              (case addDeclToContext st2 Ownr VD of
                                 Inl e \<Rightarrow> Inl e
                               | Inr st3 \<Rightarrow> Inr (setCxx st3 D VD, Some VD)))))))"

definition elaborateDecl :: "Externals \<Rightarrow> Sema \<Rightarrow> nat \<Rightarrow> error + (Sema \<times> nat option)" where
  "elaborateDecl ext st D =
     (if declaresFunction (Decls st ! D) then elaborateFunctionDecl ext st D
      else elaborateVariableDecl ext st D)"

definition elaborateDeclType :: "Externals \<Rightarrow> Sema \<Rightarrow> Syntax \<Rightarrow> error + (Sema \<times> nat option)" where
  "elaborateDeclType ext st S =
     (case ScopeStack st of
        [] \<Rightarrow> Inl (Assertion ''no current scope'')
      | CurScope # Parents \<Rightarrow>
          (case findDeclSyntax (Decls st) CurScope S of
             None \<Rightarrow> Inr (st, None)
           | Some D \<Rightarrow> elaborateDecl ext st D))"

section \<open>Initializer elaboration\<close>

definition elaborateFunctionDef :: "Externals \<Rightarrow> Sema \<Rightarrow> nat \<Rightarrow> error + Sema" where
  "elaborateFunctionDef ext st D =
     (case Cxx (Decls st ! D) of
        None \<Rightarrow> Inl (Assertion ''cast<FunctionDecl>: null pointer'')
      | Some FD \<Rightarrow>
          if \<not> (FD < length (CxxAST st) \<and> DeclKind (CxxAST st ! FD) = K_Function)
          then Inl (Assertion ''cast<FunctionDecl>'')
          else
            (case Init (Decls st ! D) of
               None \<Rightarrow> Inr st
             | Some Ini \<Rightarrow>
                 (case checkForRedefinition ext st D of
                    (st1, True) \<Rightarrow> Inr st1
                  | (st1, False) \<Rightarrow>
                      (case getFunctionDeclarator (Decl (Decls st1 ! D)) of
                         Inl e \<Rightarrow> Inl e
                       | Inr FnDecl \<Rightarrow>
                           (case Data FnDecl of
                              Data_ParamInfo ParamList (Some ParamScope) \<Rightarrow>
                                (let st2 = enterScope (pushScope (pushDecl st1 D) ParamScope)
                                             SK_Function Ini;
                                     (st3, B) = elaborateBlock ext st2 Ini
                                 in
                                   (case leaveScope (setBody st3 FD B) Ini of
                                      Inl e \<Rightarrow> Inl e
                                    | Inr st4 \<Rightarrow>
                                        (case popScope st4 of
                                           Inl e \<Rightarrow> Inl e
                                         | Inr st5 \<Rightarrow> popDecl (PopFunctionScopeInfo st5))))
                            | _ \<Rightarrow> Inl (Assertion ''null parameter scope''))))))"

definition isVarDecl :: "Sema \<Rightarrow> nat \<Rightarrow> bool" where
  "isVarDecl st VD =
     (VD < length (CxxAST st)
      \<and> (DeclKind (CxxAST st ! VD) = K_Var \<or> DeclKind (CxxAST st ! VD) = K_ParmVar))"

definition elaborateVariableInit :: "Externals \<Rightarrow> Sema \<Rightarrow> nat \<Rightarrow> error + Sema" where
  "elaborateVariableInit ext st D =
     (case Cxx (Decls st ! D) of
        None \<Rightarrow> Inr st
      | Some VD \<Rightarrow>
          if \<not> isVarDecl st VD then Inl (Assertion ''cast<VarDecl>'')
          else
            (case Init (Decls st ! D) of
               None \<Rightarrow> Inr st
             | Some Ini \<Rightarrow>
                 (case checkForRedefinition ext st D of
                    (st1, True) \<Rightarrow> Inr st1
                  | (st1, False) \<Rightarrow>
                      (case elaborateExpr ext st1 Ini of
                         (st2, TypeSourceInfoPtr T) \<Rightarrow>
                           Inr (st2\<lparr>Errs := Errs st2 @ [''Expected expression.'']\<rparr>)
                       | (st2, ExprPtr InitExpr) \<Rightarrow>
                           if isUndeducedType (Ty (CxxAST st2 ! VD)) then
                             (case DeduceAutoType ext st2 VD InitExpr of
                                (DAR_Failed, T) \<Rightarrow>
                                  Inr (st2\<lparr>Errs := Errs st2
                                              @ [''Failed to deduce type of expression.'']\<rparr>)
                              | (R, T) \<Rightarrow>
                                  Inr (AddInitializerToDecl ext (setType st2 VD T) VD InitExpr))
                           else Inr (AddInitializerToDecl ext st2 VD InitExpr)))))"

definition elaborateDef :: "Externals \<Rightarrow> Sema \<Rightarrow> nat \<Rightarrow> error + Sema" where
  "elaborateDef ext st D =
     (if declaresFunction (Decls st ! D) then elaborateFunctionDef ext st D
      else elaborateVariableInit ext st D)"

definition elaborateDeclInit :: "Externals \<Rightarrow> Sema \<Rightarrow> Syntax \<Rightarrow> error + Sema" where
  "elaborateDeclInit ext st S =
     (case ScopeStack st of
        [] \<Rightarrow> Inl (Assertion ''no current scope'')
      | CurScope # Parents \<Rightarrow>
          (case findDeclSyntax (Decls st) CurScope S of
             None \<Rightarrow> Inr st
           | Some D \<Rightarrow> elaborateDef ext st D))"

section \<open>The file driver\<close>

definition startFile :: "Sema \<Rightarrow> Syntax \<Rightarrow> Sema" where
  "startFile st S =
     (let st1 = enterScope st SK_Namespace S;
          This = length (Decls st1);
          D = (newDeclaration This None S [] None)
                \<lparr>SavedScope := Some (hd (ScopeStack st1)),
                 Cxx := Some (TranslationUnitDecl st1)\<rparr>
      in pushDecl (st1\<lparr>Decls := Decls st1 @ [D]\<rparr>) This)"

definition finishFile :: "Sema \<Rightarrow> Syntax \<Rightarrow> error + Sema" where
  "finishFile st S =
     (case popDecl st of
        Inl e \<Rightarrow> Inl e
      | Inr st1 \<Rightarrow> leaveScope st1 S)"

text \<open>The three loops of \<^verbatim>\<open>elaborateFile\<close> over the children of the file.\<close>

fun identifyDecls :: "Externals \<Rightarrow> Sema \<Rightarrow> Syntax list \<Rightarrow> error + Sema" where
  "identifyDecls ext st [] = Inr st"
| "identifyDecls ext st (SS # Rest) =
     (case identifyDecl ext st SS of
        Inl e \<Rightarrow> Inl e
      | Inr st1 \<Rightarrow> identifyDecls ext st1 Rest)"

fun elaborateDeclTypes :: "Externals \<Rightarrow> Sema \<Rightarrow> Syntax list \<Rightarrow> error + Sema" where
  "elaborateDeclTypes ext st [] = Inr st"
| "elaborateDeclTypes ext st (SS # Rest) =
     (case elaborateDeclType ext st SS of
        Inl e \<Rightarrow> Inl e
      | Inr (st1, R) \<Rightarrow> elaborateDeclTypes ext st1 Rest)"

fun elaborateDeclInits :: "Externals \<Rightarrow> Sema \<Rightarrow> Syntax list \<Rightarrow> error + Sema" where
  "elaborateDeclInits ext st [] = Inr st"
| "elaborateDeclInits ext st (SS # Rest) =
     (case elaborateDeclInit ext st SS of
        Inl e \<Rightarrow> Inl e
      | Inr st1 \<Rightarrow> elaborateDeclInits ext st1 Rest)"

definition elaborateFile :: "Externals \<Rightarrow> Sema \<Rightarrow> Syntax \<Rightarrow> error + (Sema \<times> nat)" where
  "elaborateFile ext st S =
     (case S of
        FileSyntax Children \<Rightarrow>
          (case identifyDecls ext (startFile st S) Children of
             Inl e \<Rightarrow> Inl e
           | Inr st1 \<Rightarrow>
               (case elaborateDeclTypes ext st1 Children of
                  Inl e \<Rightarrow> Inl e
                | Inr st2 \<Rightarrow>
                    (case elaborateDeclInits ext st2 Children of
                       Inl e \<Rightarrow> Inl e
                     | Inr st3 \<Rightarrow>
                         (case finishFile st3 S of
                            Inl e \<Rightarrow> Inl e
                          | Inr st4 \<Rightarrow> Inr (st4, TranslationUnitDecl st4)))))
      | _ \<Rightarrow> Inl (Assertion ''S is not a file''))"

section \<open>A minimal instance of the collaborators\<close>

text \<open>
  Modelled from the spec: the type and expression bridge is an external collaborator of
  the elaborator. This instance is the least one that lets a file run: no spelling is a
  tag name, the type of a chain is read from its Type fragment (the builtin \<open>int\<close> and
  \<open>bool\<close> and the placeholder \<open>auto\<close> translate, any other type does not, and a chain
  without a Type fragment has the placeholder type), nothing is a redefinition, and every
  initializer elaborates to an expression from which \<open>int\<close> is deduced.
\<close>

fun translateType :: "Declarator list \<Rightarrow> QualType option" where
  "translateType [] = Some AutoType"
| "translateType (d # Nxt) =
     (case Data d of
        Data_Type (Some (AtomSyntax l sp)) \<Rightarrow>
          (if sp = ''auto'' then Some AutoType
           else if sp = ''int'' \<or> sp = ''bool'' then Some (NamedType sp)
           else None)
      | Data_Type T \<Rightarrow> None
      | _ \<Rightarrow> translateType Nxt)"

fun lastType :: "Declarator list \<Rightarrow> Syntax option" where
  "lastType [] = None"
| "lastType [d] = (case Data d of Data_Type T \<Rightarrow> T | _ \<Rightarrow> None)"
| "lastType (d # Nxt) = lastType Nxt"

definition plainBridge :: Externals where
  "plainBridge =
     \<lparr>lookupUnqualifiedName = (\<lambda>st sp. False),
      getType = lastType,
      elaborateTypeExpr = (\<lambda>st D. (st, translateType D)),
      CheckMain = (\<lambda>st FD. st),
      checkForRedefinition = (\<lambda>st D. (st, False)),
      elaborateExpr = (\<lambda>st S. (st, ExprPtr 0)),
      elaborateBlock = (\<lambda>st S. (st, None)),
      DeduceAutoType = (\<lambda>st VD E. (DAR_Succeeded, NamedType ''int'')),
      AddInitializerToDecl = (\<lambda>st VD E. st)\<rparr>"

text \<open>
  A fresh host context: the translation unit is the only foreign object, and nothing has
  been declared or reported.
\<close>

definition freshSema :: Sema where
  "freshSema =
     \<lparr>Decls = [], ScopeStack = [], DeclStack = [],
      CxxAST = [\<lparr>DeclKind = K_TranslationUnit, Owner = None, Loc = None, Name = None,
                 Ty = None, Storage = SC_None, Params = [], Body = None, Members = []\<rparr>],
      TranslationUnitDecl = 0, FunctionScopes = 0, Diags = [], Errs = []\<rparr>"

section \<open>Well-formed states\<close>

text \<open>Every declaration bound in a scope of the stack is allocated in the store.\<close>

definition scopesAllocated :: "Sema \<Rightarrow> bool" where
  "scopesAllocated st =
     (\<forall>sc \<in> set (ScopeStack st). \<forall>a \<in> set (DeclMap sc). a < length (Decls st))"

section \<open>Concrete inputs\<close>

text \<open>
  The nodes the parser builds for \<open>x = v\<close>, \<open>x : T\<close>, \<open>f() : T\<close> and \<open>f() : T ! B\<close> at a
  source location, and states whose current scope is a block, a namespace or a parameter
  scope.
\<close>

definition assignment :: "nat \<Rightarrow> string \<Rightarrow> string \<Rightarrow> Syntax" where
  "assignment l x v =
     CallSyntax (AtomSyntax l OperatorEquals)
       (ListSyntax [AtomSyntax (l + 1) x, AtomSyntax (l + 2) v])"

definition typed :: "nat \<Rightarrow> string \<Rightarrow> string \<Rightarrow> Syntax" where
  "typed l x T =
     CallSyntax (AtomSyntax l OperatorColon)
       (ListSyntax [AtomSyntax (l + 1) x, AtomSyntax (l + 2) T])"

definition functionOfType :: "nat \<Rightarrow> string \<Rightarrow> string \<Rightarrow> Syntax" where
  "functionOfType l f T =
     CallSyntax (AtomSyntax l OperatorColon)
       (ListSyntax [CallSyntax (AtomSyntax (l + 1) f) (ListSyntax []), AtomSyntax (l + 2) T])"

definition functionDefinition :: "nat \<Rightarrow> string \<Rightarrow> string \<Rightarrow> string \<Rightarrow> Syntax" where
  "functionDefinition l f T B =
     CallSyntax (AtomSyntax l OperatorExclaim)
       (ListSyntax [functionOfType (l + 1) f T, AtomSyntax (l + 4) B])"

definition blockSema :: Sema where
  "blockSema = enterScope freshSema SK_Block (ListSyntax [])"

definition namespaceSema :: Sema where
  "namespaceSema = enterScope freshSema SK_Namespace (FileSyntax [])"

definition parameterSema :: Sema where
  "parameterSema = enterScope freshSema SK_Parameter (ListSyntax [])"


section \<open>Auxiliary facts\<close>

lemma operator_neq [simp]:
  "OperatorColon \<noteq> OperatorCaret" "OperatorCaret \<noteq> OperatorColon"
  "OperatorColon \<noteq> OperatorEquals" "OperatorEquals \<noteq> OperatorColon"
  "OperatorColon \<noteq> OperatorExclaim" "OperatorExclaim \<noteq> OperatorColon"
  "OperatorEquals \<noteq> OperatorExclaim" "OperatorExclaim \<noteq> OperatorEquals"
  "OperatorEquals \<noteq> OperatorCaret" "OperatorCaret \<noteq> OperatorEquals"
  "OperatorExclaim \<noteq> OperatorCaret" "OperatorCaret \<noteq> OperatorExclaim"
  by (simp_all add: OperatorColon_def OperatorCaret_def OperatorEquals_def OperatorExclaim_def)

lemma operator_not_name [simp]:
  "''f'' \<noteq> OperatorColon" "''f'' \<noteq> OperatorCaret"
  by (simp_all add: OperatorColon_def OperatorCaret_def)

lemmas run_defs =
  identifyDecl_def unpackDeclarator_def declareIn_def makeDeclarator0_def
  buildTypeDeclarator_def buildIdDeclarator_def buildFunctionDeclarator_def
  buildPointerDeclarator_def getIdentifier_def getId_def isIdentifier_def
  isBlockScope_def isParameterScope_def isNamespaceScope_def
  addDecl_def newDeclaration_def setPreviousDecl_def getCurrentDecl_def
  enterScope_def pushScope_def freshSema_def plainBridge_def
  assignment_def typed_def blockSema_def namespaceSema_def parameterSema_def Let_def

lemma isBlockScope_excl:
  "isBlockScope sc \<Longrightarrow> \<not> isParameterScope sc \<and> \<not> isNamespaceScope sc"
  by (simp add: isBlockScope_def isParameterScope_def isNamespaceScope_def)

lemma find_Some_mem: "a \<in> set xs \<Longrightarrow> P a \<Longrightarrow> find P xs \<noteq> None"
  by (auto simp: find_None_iff)

lemma find_valid: "find (\<lambda>a. a < n \<and> Q a) xs = Some a \<Longrightarrow> a < n"
  by (induction xs) (auto split: if_splits)

lemma findDecl_bound:
  assumes "Old \<in> set (DeclMap sc)" "Old < length ds" "DeclId (ds ! Old) = Some x"
  shows "findDecl ds (sc # Parents) (Some x) \<noteq> None"
  using find_Some_mem [of Old "DeclMap sc" "\<lambda>a. a < length ds \<and> DeclId (ds ! a) = Some x"] assms
  by (auto split: option.splits)

lemma find_append_store:
  assumes "\<forall>a \<in> set xs. a < length ds"
  shows "find (\<lambda>a. a < Suc (length ds) \<and> DeclId ((ds @ [d]) ! a) = Some x) xs
       = find (\<lambda>a. a < length ds \<and> DeclId (ds ! a) = Some x) xs"
  using assms by (induction xs) (auto simp: nth_append)

lemma findDecl_append_store:
  assumes "\<forall>sc \<in> set scs. \<forall>a \<in> set (DeclMap sc). a < length ds"
  shows "findDecl (ds @ [d]) scs Ident = findDecl ds scs Ident"
  using assms
proof (induction scs)
  case Nil
  then show ?case by simp
next
  case (Cons sc scs)
  then show ?case
    by (cases Ident) (auto simp: find_append_store split: option.splits)
qed

lemma findDecl_valid: "findDecl ds scs Ident = Some a \<Longrightarrow> a < length ds"
proof (induction scs)
  case Nil
  then show ?case by simp
next
  case (Cons sc scs)
  then show ?case
    by (cases Ident) (auto split: option.splits dest: find_valid)
qed

lemma isIdentifier_nonempty: "isIdentifier D \<Longrightarrow> D \<noteq> []"
  by (auto simp: isIdentifier_def)

section \<open>The declarator builder\<close>

text \<open>
  C7. For a leaf node the tag-name lookup in the current state decides the fragment: if
  the lookup resolves the spelling, the builder prepends a Type fragment holding the
  leaf; otherwise it prepends an Identifier fragment holding the leaf.
\<close>

theorem makeDeclarator_leaf:
  "makeDeclarator ext st (AtomSyntax l sp) Nxt =
     Inr ((if lookupUnqualifiedName ext st sp
           then \<lparr>Kind = DK_Type, Call = None, Data = Data_Type (Some (AtomSyntax l sp))\<rparr>
           else \<lparr>Kind = DK_Identifier, Call = None, Data = Data_Id (AtomSyntax l sp)\<rparr>) # Nxt)"
  by (simp add: buildTypeDeclarator_def buildIdDeclarator_def)

text \<open>
  For the pointer operator the builder first builds the pointee chain from the operand and
  then prepends a Pointer fragment. An invocation whose callee is a leaf that is neither
  the declare-with-type operator nor the pointer operator is decomposed as a function
  declarator: the builder recurses into the callee with a Function fragment, carrying the
  raw argument list, prepended to the rest. So for a pointer to a function the chain is
  the Pointer fragment of the outer form, then the fragment of the function's name, then
  its Function fragment.
\<close>

lemma makeDeclarator_pointer_function:
  "(getChild Args 0 = Inr A0 \<longrightarrow>
      makeDeclarator ext st (CallSyntax (AtomSyntax l OperatorCaret) Args) Nxt =
        (case makeDeclarator ext st A0 Nxt of
           Inl e \<Rightarrow> Inl e
         | Inr Pointee \<Rightarrow>
             Inr (\<lparr>Kind = DK_Pointer,
                   Call = Some (CallSyntax (AtomSyntax l OperatorCaret) Args),
                   Data = NoData\<rparr> # Pointee)))
   \<and> (sp \<noteq> OperatorColon \<and> sp \<noteq> OperatorCaret \<longrightarrow>
      makeDeclarator ext st (CallSyntax (AtomSyntax k sp) Ps) Nxt =
        makeDeclarator ext st (AtomSyntax k sp)
          (\<lparr>Kind = DK_Function, Call = Some (CallSyntax (AtomSyntax k sp) Ps),
            Data = Data_ParamInfo Ps None\<rparr> # Nxt))
   \<and> (sp \<noteq> OperatorColon \<and> sp \<noteq> OperatorCaret \<longrightarrow>
      (\<exists>P Hd F.
         makeDeclarator ext st
           (CallSyntax (AtomSyntax l OperatorCaret)
              (ListSyntax [CallSyntax (AtomSyntax k sp) Ps])) Nxt = Inr (P # Hd # F # Nxt)
         \<and> Kind P = DK_Pointer
         \<and> Kind Hd = (if lookupUnqualifiedName ext st sp then DK_Type else DK_Identifier)
         \<and> Kind F = DK_Function \<and> Data F = Data_ParamInfo Ps None))"
  by (auto simp: buildPointerDeclarator_def buildFunctionDeclarator_def
      buildTypeDeclarator_def buildIdDeclarator_def split: sum.splits)

text \<open>
  C8. The code does not do what the claim says. The builder casts the callee of every
  invocation to a leaf before it looks at the operator, so an invocation whose callee is
  itself an invocation, such as \<open>f()()\<close>, which is neither the declare-with-type operator
  nor the pointer operator, is not decomposed as a function declarator: the cast fails
  and the run ends there, whatever the arguments and the rest of the chain are.
\<close>

theorem makeDeclarator_nested_callee:
  "makeDeclarator ext st (CallSyntax (CallSyntax Callee Args0) Args) Nxt
   = Inl (Assertion ''cast<AtomSyntax>'')"
  by simp

section \<open>Identification\<close>

text \<open>
  C2. In block scope, identifying an assignment \<open>D = Ini\<close> whose declarator names an
  identifier that is bound in the current block scope returns the state as it was: no
  declaration is created and the bindings of the scope are unchanged. So identifying
  \<open>x = v\<close> and then \<open>x = w\<close> in a block where \<open>x\<close> was not bound (and is not a tag name)
  allocates exactly one declaration, named \<open>x\<close>, and binds it once.
\<close>

theorem identifyDecl_block_reassignment:
  "(ScopeStack st = CurScope # Parents \<and> isBlockScope CurScope
      \<and> getChild Args 0 = Inr D \<and> getChild Args 1 = Inr Ini
      \<and> makeDeclarator0 ext st D = Inr Dcl \<and> getIdentifier Dcl = Some x
      \<and> Old \<in> set (DeclMap CurScope) \<and> Old < length (Decls st)
      \<and> DeclId (Decls st ! Old) = Some x
    \<longrightarrow> identifyDecl ext st (CallSyntax (AtomSyntax l OperatorEquals) Args) = Inr st)
   \<and> (ScopeStack st = CurScope # Parents \<and> isBlockScope CurScope
      \<and> (\<forall>s. \<not> lookupUnqualifiedName ext s x)
      \<and> findDecl (Decls st) (CurScope # Parents) (Some x) = None
    \<longrightarrow> (\<exists>d. identifyDecls ext st
                [CallSyntax (AtomSyntax l OperatorEquals) (ListSyntax [AtomSyntax k x, V]),
                 CallSyntax (AtomSyntax l' OperatorEquals) (ListSyntax [AtomSyntax k' x, W])]
              = Inr (st\<lparr>Decls := Decls st @ [d],
                       ScopeStack :=
                         CurScope\<lparr>DeclMap := length (Decls st) # DeclMap CurScope\<rparr> # Parents\<rparr>)
            \<and> DeclId d = Some x))"
proof (intro conjI impI)
  assume a: "ScopeStack st = CurScope # Parents \<and> isBlockScope CurScope
      \<and> getChild Args 0 = Inr D \<and> getChild Args 1 = Inr Ini
      \<and> makeDeclarator0 ext st D = Inr Dcl \<and> getIdentifier Dcl = Some x
      \<and> Old \<in> set (DeclMap CurScope) \<and> Old < length (Decls st)
      \<and> DeclId (Decls st ! Old) = Some x"
  then have "findDecl (Decls st) (CurScope # Parents) (Some x) \<noteq> None"
    by (intro findDecl_bound [where Old = Old]) simp_all
  with a isBlockScope_excl [of CurScope]
  show "identifyDecl ext st (CallSyntax (AtomSyntax l OperatorEquals) Args) = Inr st"
    by (simp add: identifyDecl_def unpackDeclarator_def declareIn_def del: findDecl.simps)
next
  assume b: "ScopeStack st = CurScope # Parents \<and> isBlockScope CurScope
      \<and> (\<forall>s. \<not> lookupUnqualifiedName ext s x)
      \<and> findDecl (Decls st) (CurScope # Parents) (Some x) = None"
  let ?New = "length (Decls st)"
  let ?S = "CallSyntax (AtomSyntax l OperatorEquals) (ListSyntax [AtomSyntax k x, V])"
  let ?d = "\<lparr>Cxt = getCurrentDecl st, Op = ?S,
             Decl = [\<lparr>Kind = DK_Identifier, Call = None, Data = Data_Id (AtomSyntax k x)\<rparr>],
             Init = Some V, DeclId = Some x, FunctionDcl = None, SavedScope = None, Cxx = None,
             First = ?New, Next = ?New\<rparr>"
  let ?sc = "CurScope\<lparr>DeclMap := ?New # DeclMap CurScope\<rparr>"
  let ?st1 = "st\<lparr>Decls := Decls st @ [?d], ScopeStack := ?sc # Parents\<rparr>"
  have first: "identifyDecl ext st ?S = Inr ?st1"
    using b isBlockScope_excl [of CurScope]
    by (simp add: identifyDecl_def unpackDeclarator_def declareIn_def makeDeclarator0_def
        buildIdDeclarator_def getIdentifier_def getId_def isIdentifier_def
        addDecl_def newDeclaration_def Let_def del: findDecl.simps)
  have bound: "findDecl (Decls ?st1) (?sc # Parents) (Some x) \<noteq> None"
    by (intro findDecl_bound [where Old = ?New]) simp_all
  have second: "identifyDecl ext ?st1
                  (CallSyntax (AtomSyntax l' OperatorEquals) (ListSyntax [AtomSyntax k' x, W]))
                = Inr ?st1"
    using b bound isBlockScope_excl [of ?sc]
    by (simp add: identifyDecl_def unpackDeclarator_def declareIn_def makeDeclarator0_def
        buildIdDeclarator_def getIdentifier_def getId_def isIdentifier_def
        isBlockScope_def isParameterScope_def del: findDecl.simps)
  show "\<exists>d. identifyDecls ext st
                [?S, CallSyntax (AtomSyntax l' OperatorEquals) (ListSyntax [AtomSyntax k' x, W])]
              = Inr (st\<lparr>Decls := Decls st @ [d], ScopeStack := ?sc # Parents\<rparr>)
            \<and> DeclId d = Some x"
    using first second by (intro exI [of _ ?d]) simp
qed

theorem identifyDecl_block_reassignment_witness:
  "(\<exists>st1. identifyDecl plainBridge blockSema (assignment 0 ''x'' ''3'') = Inr st1
          \<and> length (Decls st1) = 1
          \<and> identifyDecl plainBridge st1 (assignment 10 ''x'' ''4'') = Inr st1)
   \<and> (\<exists>d. identifyDecls plainBridge blockSema
              [assignment 0 ''x'' ''3'', assignment 10 ''x'' ''4'']
            = Inr (blockSema\<lparr>Decls := [d],
                     ScopeStack := [\<lparr>SK = SK_Block, Anchor = ListSyntax [], DeclMap = [0]\<rparr>]\<rparr>)
          \<and> DeclId d = Some ''x'')"
proof
  let ?Dcl = "[\<lparr>Kind = DK_Identifier, Call = None, Data = Data_Id (AtomSyntax 1 ''x'')\<rparr>]"
  let ?sc = "\<lparr>SK = SK_Block, Anchor = ListSyntax [], DeclMap = [0]\<rparr>"
  let ?st1 = "blockSema\<lparr>Decls := [\<lparr>Cxt = None, Op = assignment 0 ''x'' ''3'', Decl = ?Dcl,
                  Init = Some (AtomSyntax 2 ''3''), DeclId = Some ''x'', FunctionDcl = None, SavedScope = None,
                  Cxx = None, First = 0, Next = 0\<rparr>],
                ScopeStack := [?sc]\<rparr>"
  have first: "identifyDecl plainBridge blockSema (assignment 0 ''x'' ''3'') = Inr ?st1"
    by (simp add: run_defs)
  have hyps: "ScopeStack ?st1 = ?sc # [] \<and> isBlockScope ?sc
      \<and> getChild (ListSyntax [AtomSyntax 11 ''x'', AtomSyntax 12 ''4'']) 0
          = Inr (AtomSyntax 11 ''x'')
      \<and> getChild (ListSyntax [AtomSyntax 11 ''x'', AtomSyntax 12 ''4'']) 1
          = Inr (AtomSyntax 12 ''4'')
      \<and> makeDeclarator0 plainBridge ?st1 (AtomSyntax 11 ''x'')
          = Inr [\<lparr>Kind = DK_Identifier, Call = None, Data = Data_Id (AtomSyntax 11 ''x'')\<rparr>]
      \<and> getIdentifier [\<lparr>Kind = DK_Identifier, Call = None,
                          Data = Data_Id (AtomSyntax 11 ''x'')\<rparr>] = Some ''x''
      \<and> 0 \<in> set (DeclMap ?sc) \<and> 0 < length (Decls ?st1)
      \<and> DeclId (Decls ?st1 ! 0) = Some ''x''"
    by (simp add: run_defs)
  have second: "identifyDecl plainBridge ?st1
                  (CallSyntax (AtomSyntax 10 OperatorEquals)
                     (ListSyntax [AtomSyntax 11 ''x'', AtomSyntax 12 ''4''])) = Inr ?st1"
    using identifyDecl_block_reassignment
            [THEN conjunct1, rule_format, OF hyps, of 10] .
  show "\<exists>st1. identifyDecl plainBridge blockSema (assignment 0 ''x'' ''3'') = Inr st1
          \<and> length (Decls st1) = 1
          \<and> identifyDecl plainBridge st1 (assignment 10 ''x'' ''4'') = Inr st1"
    using first second by (simp add: assignment_def)
next
  have hyps: "ScopeStack blockSema = \<lparr>SK = SK_Block, Anchor = ListSyntax [], DeclMap = []\<rparr> # []
      \<and> isBlockScope \<lparr>SK = SK_Block, Anchor = ListSyntax [], DeclMap = []\<rparr>
      \<and> (\<forall>s. \<not> lookupUnqualifiedName plainBridge s ''x'')
      \<and> findDecl (Decls blockSema)
          (\<lparr>SK = SK_Block, Anchor = ListSyntax [], DeclMap = []\<rparr> # []) (Some ''x'') = None"
    by (simp add: run_defs)
  show "\<exists>d. identifyDecls plainBridge blockSema
              [assignment 0 ''x'' ''3'', assignment 10 ''x'' ''4'']
            = Inr (blockSema\<lparr>Decls := [d],
                     ScopeStack := [\<lparr>SK = SK_Block, Anchor = ListSyntax [], DeclMap = [0]\<rparr>]\<rparr>)
          \<and> DeclId d = Some ''x''"
    using identifyDecl_block_reassignment
            [THEN conjunct2, rule_format, OF hyps,
              of 0 "0 + 1" "AtomSyntax (0 + 2) ''3''" 10 "10 + 1" "AtomSyntax (10 + 2) ''4''"]
    by (simp add: assignment_def blockSema_def enterScope_def pushScope_def freshSema_def
        del: identifyDecls.simps)
qed

text \<open>
  C3. In namespace or parameter scope, identifying a declaration (of any of the three
  forms) whose identifier is already bound to a declaration \<open>Old\<close> allocates one new
  declaration and links it behind \<open>Old\<close>: \<open>Old\<close> now has the new one as its next, the new
  one takes the first declaration of \<open>Old\<close>'s chain as its own first and points at it, and
  the new one is bound in the current scope. When \<open>Old\<close> is the first of its chain, the
  second declaration points at the first.
\<close>

theorem identifyDecl_redeclaration:
  assumes "ScopeStack st = CurScope # Parents"
    and "isNamespaceScope CurScope \<or> isParameterScope CurScope"
    and "scopesAllocated st"
    and "unpackDeclarator st (CallSyntax (AtomSyntax l Opr) Args) Opr Args
           = Inr (Some (D, Ini, OperatorEq))"
    and "makeDeclarator0 ext st D = Inr Dcl" and "isIdentifier Dcl"
    and "findDecl (Decls st) (CurScope # Parents) (getIdentifier Dcl) = Some Old"
  shows "\<exists>st'. identifyDecl ext st (CallSyntax (AtomSyntax l Opr) Args) = Inr st'
           \<and> length (Decls st') = Suc (length (Decls st))
           \<and> Old < length (Decls st)
           \<and> Next (Decls st' ! Old) = length (Decls st)
           \<and> First (Decls st' ! length (Decls st)) = First (Decls st ! Old)
           \<and> Next (Decls st' ! length (Decls st)) = First (Decls st ! Old)
           \<and> (First (Decls st ! Old) = Old \<longrightarrow>
                First (Decls st' ! length (Decls st)) = Old
                \<and> Next (Decls st' ! length (Decls st)) = Old)
           \<and> ScopeStack st'
                = CurScope\<lparr>DeclMap := length (Decls st) # DeclMap CurScope\<rparr> # Parents"
proof -
  let ?New = "length (Decls st)"
  let ?D = "(newDeclaration ?New (getCurrentDecl st) (CallSyntax (AtomSyntax l Opr) Args) Dcl Ini)
              \<lparr>DeclId := getIdentifier Dcl\<rparr>"
  let ?st1 = "st\<lparr>Decls := Decls st @ [?D]\<rparr>"
  have old: "Old < ?New"
    using assms(7) by (rule findDecl_valid)
  have "\<forall>sc \<in> set (CurScope # Parents). \<forall>a \<in> set (DeclMap sc). a < length (Decls st)"
    using assms(1,3) by (simp add: scopesAllocated_def)
  then have found:
    "findDecl (Decls st @ [?D]) (CurScope # Parents) (getIdentifier Dcl) = Some Old"
    using assms(7) by (simp only: findDecl_append_store)
  have notblock: "\<not> isBlockScope CurScope"
    using assms(2) by (auto simp: isBlockScope_def isNamespaceScope_def isParameterScope_def)
  have run: "identifyDecl ext st (CallSyntax (AtomSyntax l Opr) Args)
               = addDecl (setPreviousDecl ?st1 ?New Old) ?New"
    using assms(1,2,4,5,6) found notblock isIdentifier_nonempty [OF assms(6)]
    by (simp add: identifyDecl_def declareIn_def Let_def del: findDecl.simps)
  show ?thesis
    unfolding run using old assms(1)
    by (simp add: addDecl_def setPreviousDecl_def Let_def nth_append newDeclaration_def)
qed

theorem identifyDecl_redeclaration_witness:
  "\<exists>st1 st2. identifyDecl plainBridge namespaceSema (typed 0 ''x'' ''int'') = Inr st1
      \<and> identifyDecl plainBridge st1 (typed 10 ''x'' ''int'') = Inr st2
      \<and> length (Decls st1) = 1 \<and> length (Decls st2) = 2
      \<and> Next (Decls st2 ! 0) = 1
      \<and> First (Decls st2 ! 1) = 0 \<and> Next (Decls st2 ! 1) = 0
      \<and> DeclMap (hd (ScopeStack st2)) = [1, 0]"
proof -
  let ?sc = "\<lparr>SK = SK_Namespace, Anchor = FileSyntax [], DeclMap = [0]\<rparr>"
  let ?Dcl = "\<lambda>l. [\<lparr>Kind = DK_Identifier, Call = None, Data = Data_Id (AtomSyntax (l + 1) ''x'')\<rparr>,
                  \<lparr>Kind = DK_Type, Call = Some (typed l ''x'' ''int''),
                   Data = Data_Type (Some (AtomSyntax (l + 2) ''int''))\<rparr>]"
  let ?st1 = "namespaceSema\<lparr>Decls := [\<lparr>Cxt = None, Op = typed 0 ''x'' ''int'', Decl = ?Dcl 0,
                  Init = None, DeclId = Some ''x'', FunctionDcl = None, SavedScope = None,
                  Cxx = None, First = 0, Next = 0\<rparr>],
                ScopeStack := [?sc]\<rparr>"
  let ?Args = "ListSyntax [AtomSyntax (10 + 1) ''x'', AtomSyntax (10 + 2) ''int'']"
  have first: "identifyDecl plainBridge namespaceSema (typed 0 ''x'' ''int'') = Inr ?st1"
    by (simp add: run_defs)
  have h1: "ScopeStack ?st1 = ?sc # []" by simp
  have h2: "isNamespaceScope ?sc \<or> isParameterScope ?sc" by (simp add: isNamespaceScope_def)
  have h3: "scopesAllocated ?st1" by (simp add: scopesAllocated_def)
  have h4: "unpackDeclarator ?st1 (CallSyntax (AtomSyntax 10 OperatorColon) ?Args)
              OperatorColon ?Args
            = Inr (Some (CallSyntax (AtomSyntax 10 OperatorColon) ?Args, None, False))"
    by (simp add: unpackDeclarator_def)
  have h5: "makeDeclarator0 plainBridge ?st1 (CallSyntax (AtomSyntax 10 OperatorColon) ?Args)
            = Inr (?Dcl 10)"
    by (simp add: run_defs)
  have h6: "isIdentifier (?Dcl 10)" by (simp add: isIdentifier_def)
  have h7: "findDecl (Decls ?st1) (?sc # []) (getIdentifier (?Dcl 10)) = Some 0"
    by (simp add: run_defs)
  from identifyDecl_redeclaration [OF h1 h2 h3 h4 h5 h6 h7]
  obtain st2 where
    "identifyDecl plainBridge ?st1 (CallSyntax (AtomSyntax 10 OperatorColon) ?Args) = Inr st2"
    "length (Decls st2) = Suc (length (Decls ?st1))"
    "Next (Decls st2 ! 0) = length (Decls ?st1)"
    "First (Decls st2 ! length (Decls ?st1)) = First (Decls ?st1 ! 0)"
    "Next (Decls st2 ! length (Decls ?st1)) = First (Decls ?st1 ! 0)"
    "ScopeStack st2 = ?sc\<lparr>DeclMap := length (Decls ?st1) # DeclMap ?sc\<rparr> # []"
    by blast
  with first show ?thesis
    by (intro exI [of _ ?st1] exI [of _ st2]) (simp add: typed_def)
qed

lemma declareIn_unchained:
  assumes "declareIn ext st S D Ini b = Inr st'"
    and "ScopeStack st = CurScope # Parents"
    and "\<not> isNamespaceScope CurScope" and "\<not> isParameterScope CurScope"
  shows "st' = st
       \<or> (\<exists>d. Decls st' = Decls st @ [d]
             \<and> First d = length (Decls st) \<and> Next d = length (Decls st))"
  using assms
  by (auto simp: declareIn_def addDecl_def newDeclaration_def Let_def
      simp del: findDecl.simps split: sum.splits if_splits)

text \<open>
  C9. In block scope, identifying a declaration of a form other than the assignment (the
  bare declaration \<open>x : T\<close>, or \<open>x ! v\<close>) whose name is already bound in that scope to a
  declaration \<open>Old\<close> allocates a new declaration and binds it in the scope in front of
  \<open>Old\<close>; the new declaration is the first and the next of its own chain, and \<open>Old\<close>, like
  every earlier declaration, is left as it was: no link joins the two. And in a scope
  that is neither a namespace nor a parameter scope, identifying any node either leaves
  the state as it was or allocates one declaration that is the first and the next of its
  own chain, all earlier declarations left as they were.
\<close>

theorem identifyDecl_block_redeclaration:
  "(ScopeStack st = CurScope # Parents \<and> isBlockScope CurScope
      \<and> unpackDeclarator st (CallSyntax (AtomSyntax l Opr) Args) Opr Args
           = Inr (Some (D, Ini, False))
      \<and> makeDeclarator0 ext st D = Inr Dcl \<and> Dcl \<noteq> []
      \<and> getIdentifier Dcl = Some x
      \<and> Old \<in> set (DeclMap CurScope) \<and> Old < length (Decls st)
      \<and> DeclId (Decls st ! Old) = Some x
    \<longrightarrow> (\<exists>st'. identifyDecl ext st (CallSyntax (AtomSyntax l Opr) Args) = Inr st'
           \<and> Decls st' = Decls st @
                 [\<lparr>Cxt = getCurrentDecl st, Op = CallSyntax (AtomSyntax l Opr) Args,
                   Decl = Dcl, Init = Ini, DeclId = Some x, FunctionDcl = None, SavedScope = None, Cxx = None,
                   First = length (Decls st), Next = length (Decls st)\<rparr>]
           \<and> ScopeStack st'
                = CurScope\<lparr>DeclMap := length (Decls st) # DeclMap CurScope\<rparr> # Parents
           \<and> Decls st' ! Old = Decls st ! Old
           \<and> First (Decls st' ! length (Decls st)) \<noteq> Old
           \<and> Next (Decls st' ! length (Decls st)) \<noteq> Old))
   \<and> (ScopeStack st = CurScope # Parents
      \<and> \<not> isNamespaceScope CurScope \<and> \<not> isParameterScope CurScope
      \<and> identifyDecl ext st S = Inr st2
    \<longrightarrow> st2 = st
        \<or> (\<exists>d. Decls st2 = Decls st @ [d]
              \<and> First d = length (Decls st) \<and> Next d = length (Decls st)))"
proof (intro conjI impI)
  assume a: "ScopeStack st = CurScope # Parents \<and> isBlockScope CurScope
      \<and> unpackDeclarator st (CallSyntax (AtomSyntax l Opr) Args) Opr Args
           = Inr (Some (D, Ini, False))
      \<and> makeDeclarator0 ext st D = Inr Dcl \<and> Dcl \<noteq> []
      \<and> getIdentifier Dcl = Some x
      \<and> Old \<in> set (DeclMap CurScope) \<and> Old < length (Decls st)
      \<and> DeclId (Decls st ! Old) = Some x"
  with isBlockScope_excl [of CurScope]
  show "\<exists>st'. identifyDecl ext st (CallSyntax (AtomSyntax l Opr) Args) = Inr st'
           \<and> Decls st' = Decls st @
                 [\<lparr>Cxt = getCurrentDecl st, Op = CallSyntax (AtomSyntax l Opr) Args,
                   Decl = Dcl, Init = Ini, DeclId = Some x, FunctionDcl = None, SavedScope = None, Cxx = None,
                   First = length (Decls st), Next = length (Decls st)\<rparr>]
           \<and> ScopeStack st'
                = CurScope\<lparr>DeclMap := length (Decls st) # DeclMap CurScope\<rparr> # Parents
           \<and> Decls st' ! Old = Decls st ! Old
           \<and> First (Decls st' ! length (Decls st)) \<noteq> Old
           \<and> Next (Decls st' ! length (Decls st)) \<noteq> Old"
    by (simp add: identifyDecl_def declareIn_def
        addDecl_def newDeclaration_def Let_def nth_append del: findDecl.simps)
next
  assume b: "ScopeStack st = CurScope # Parents
      \<and> \<not> isNamespaceScope CurScope \<and> \<not> isParameterScope CurScope
      \<and> identifyDecl ext st S = Inr st2"
  show "st2 = st
        \<or> (\<exists>d. Decls st2 = Decls st @ [d]
              \<and> First d = length (Decls st) \<and> Next d = length (Decls st))"
  proof (cases "\<exists>Callee Args l Opr D Ini OpEq. S = CallSyntax (AtomSyntax l Opr) Args
                  \<and> unpackDeclarator st S Opr Args = Inr (Some (D, Ini, OpEq))")
    case True
    then obtain Args l Opr D Ini OpEq where S: "S = CallSyntax (AtomSyntax l Opr) Args"
      and u: "unpackDeclarator st S Opr Args = Inr (Some (D, Ini, OpEq))"
      by blast
    with b have "declareIn ext st S D Ini OpEq = Inr st2"
      by (simp add: identifyDecl_def)
    with b show ?thesis
      by (blast dest: declareIn_unchained)
  next
    case False
    with b have "st2 = st"
      by (auto simp: identifyDecl_def split: Syntax.splits sum.splits option.splits)
    then show ?thesis ..
  qed
qed

theorem identifyDecl_block_redeclaration_witness:
  "\<exists>st1 st2. identifyDecl plainBridge blockSema (typed 0 ''x'' ''int'') = Inr st1
      \<and> identifyDecl plainBridge st1 (typed 10 ''x'' ''int'') = Inr st2
      \<and> length (Decls st1) = 1 \<and> length (Decls st2) = 2
      \<and> Decls st2 ! 0 = Decls st1 ! 0 \<and> Next (Decls st2 ! 0) = 0
      \<and> First (Decls st2 ! 1) = 1 \<and> Next (Decls st2 ! 1) = 1
      \<and> DeclMap (hd (ScopeStack st2)) = [1, 0]
      \<and> (st1 = blockSema
          \<or> (\<exists>d. Decls st1 = Decls blockSema @ [d]
                \<and> First d = length (Decls blockSema) \<and> Next d = length (Decls blockSema)))"
proof -
  let ?sc = "\<lparr>SK = SK_Block, Anchor = ListSyntax [], DeclMap = [0]\<rparr>"
  let ?Args = "\<lambda>l. ListSyntax [AtomSyntax (l + 1) ''x'', AtomSyntax (l + 2) ''int'']"
  let ?S = "\<lambda>l. CallSyntax (AtomSyntax l OperatorColon) (?Args l)"
  let ?Dcl = "\<lambda>l. [\<lparr>Kind = DK_Identifier, Call = None, Data = Data_Id (AtomSyntax (l + 1) ''x'')\<rparr>,
                  \<lparr>Kind = DK_Type, Call = Some (?S l),
                   Data = Data_Type (Some (AtomSyntax (l + 2) ''int''))\<rparr>]"
  let ?st1 = "blockSema\<lparr>Decls := [\<lparr>Cxt = None, Op = ?S 0, Decl = ?Dcl 0,
                  Init = None, DeclId = Some ''x'', FunctionDcl = None, SavedScope = None,
                  Cxx = None, First = 0, Next = 0\<rparr>],
                ScopeStack := [?sc]\<rparr>"
  have first: "identifyDecl plainBridge blockSema (typed 0 ''x'' ''int'') = Inr ?st1"
    by (simp add: run_defs)
  have hyps: "ScopeStack ?st1 = ?sc # [] \<and> isBlockScope ?sc
      \<and> unpackDeclarator ?st1 (?S 10) OperatorColon (?Args 10)
           = Inr (Some (?S 10, None, False))
      \<and> makeDeclarator0 plainBridge ?st1 (?S 10) = Inr (?Dcl 10) \<and> ?Dcl 10 \<noteq> []
      \<and> getIdentifier (?Dcl 10) = Some ''x''
      \<and> 0 \<in> set (DeclMap ?sc) \<and> 0 < length (Decls ?st1)
      \<and> DeclId (Decls ?st1 ! 0) = Some ''x''"
    by (simp add: run_defs)
  from identifyDecl_block_redeclaration [THEN conjunct1, rule_format, OF hyps]
  obtain st2 where
    "identifyDecl plainBridge ?st1 (?S 10) = Inr st2"
    "Decls st2 = Decls ?st1 @
                 [\<lparr>Cxt = getCurrentDecl ?st1, Op = ?S 10, Decl = ?Dcl 10,
                   Init = None, DeclId = Some ''x'', FunctionDcl = None, SavedScope = None, Cxx = None,
                   First = length (Decls ?st1), Next = length (Decls ?st1)\<rparr>]"
    "ScopeStack st2 = ?sc\<lparr>DeclMap := length (Decls ?st1) # DeclMap ?sc\<rparr> # []"
    by blast
  moreover have "ScopeStack blockSema = \<lparr>SK = SK_Block, Anchor = ListSyntax [], DeclMap = []\<rparr> # []
      \<and> \<not> isNamespaceScope \<lparr>SK = SK_Block, Anchor = ListSyntax [], DeclMap = []\<rparr>
      \<and> \<not> isParameterScope \<lparr>SK = SK_Block, Anchor = ListSyntax [], DeclMap = []\<rparr>
      \<and> identifyDecl plainBridge blockSema (typed 0 ''x'' ''int'') = Inr ?st1"
    using first by (simp add: run_defs)
  from identifyDecl_block_redeclaration [THEN conjunct2, rule_format, OF this]
  have "?st1 = blockSema
      \<or> (\<exists>d. Decls ?st1 = Decls blockSema @ [d]
            \<and> First d = length (Decls blockSema) \<and> Next d = length (Decls blockSema))" .
  ultimately show ?thesis
    using first
    by (intro exI [of _ ?st1] exI [of _ st2]) (simp add: typed_def)
qed

section \<open>Nodes without a declaration\<close>

text \<open>
  C10. For a node to which the current scope binds no declaration, \<open>elaborateDeclType\<close>
  returns null and \<open>elaborateDeclInit\<close> returns, each leaving the whole state (the
  foreign objects, the diagnostics, the scopes and the declarations) as it was.
\<close>

theorem elaborate_unbound_node:
  assumes "ScopeStack st = CurScope # Parents"
    and "findDeclSyntax (Decls st) CurScope S = None"
  shows "elaborateDeclType ext st S = Inr (st, None) \<and> elaborateDeclInit ext st S = Inr st"
  using assms by (simp add: elaborateDeclType_def elaborateDeclInit_def)

theorem elaborate_unbound_node_witness:
  "elaborateDeclType plainBridge namespaceSema (AtomSyntax 20 ''y'') = Inr (namespaceSema, None)
   \<and> elaborateDeclInit plainBridge namespaceSema (AtomSyntax 20 ''y'') = Inr namespaceSema"
proof -
  have h1: "ScopeStack namespaceSema
              = \<lparr>SK = SK_Namespace, Anchor = FileSyntax [], DeclMap = []\<rparr> # []"
    by (simp add: run_defs)
  have h2: "findDeclSyntax (Decls namespaceSema)
              \<lparr>SK = SK_Namespace, Anchor = FileSyntax [], DeclMap = []\<rparr> (AtomSyntax 20 ''y'')
            = None"
    by (simp add: findDeclSyntax_def)
  show ?thesis
    by (rule elaborate_unbound_node [OF h1 h2])
qed

section \<open>Type and initializer elaboration\<close>


lemmas elab_defs =
  elaborateFile_def startFile_def finishFile_def popDecl_def leaveScope_def pushDecl_def
  elaborateDeclType_def elaborateDecl_def elaborateVariableDecl_def elaborateFunctionDecl_def
  elaborateParameterDecl_def elaborateDeclInit_def elaborateDef_def elaborateVariableInit_def
  elaborateFunctionDef_def declaresFunction_def isFunction_def findDeclSyntax_def
  getCurrentCxxDeclContext_def getStorageClass_def getFunctionParameters_def
  getFunctionDeclarator_def Create_def Report_def addDeclToContext_def setCxx_def
  setParams_def setBody_def setType_def isMain_def isUndeducedType_def isVarDecl_def
  PushFunctionScope_def PopFunctionScopeInfo_def popScope_def

text \<open>
  C4. The code does not do what the claim says. When a variable declaration has a foreign
  object and no initializer, initializer elaboration returns the state as it was,
  whatever the type of the variable is: for the placeholder type nothing is reported.
\<close>

theorem elaborateVariableInit_no_initializer:
  assumes "Cxx (Decls st ! D) = Some VD" and "isVarDecl st VD"
    and "Ty (CxxAST st ! VD) = Some AutoType" and "Init (Decls st ! D) = None"
  shows "elaborateVariableInit ext st D = Inr st"
  using assms by (simp add: elaborateVariableInit_def)

theorem elaborateVariableInit_no_initializer_witness:
  "\<exists>st1 st2. identifyDecl plainBridge (startFile freshSema (FileSyntax [typed 0 ''x'' ''auto'']))
                 (typed 0 ''x'' ''auto'') = Inr st1
      \<and> elaborateDeclType plainBridge st1 (typed 0 ''x'' ''auto'') = Inr (st2, Some 1)
      \<and> Ty (CxxAST st2 ! 1) = Some AutoType
      \<and> elaborateVariableInit plainBridge st2 1 = Inr st2
      \<and> Diags st2 = [] \<and> Errs st2 = []"
proof -
  let ?F = "FileSyntax [typed 0 ''x'' ''auto'']"
  let ?Dcl = "[\<lparr>Kind = DK_Identifier, Call = None, Data = Data_Id (AtomSyntax (0 + 1) ''x'')\<rparr>,
              \<lparr>Kind = DK_Type, Call = Some (typed 0 ''x'' ''auto''),
                Data = Data_Type (Some (AtomSyntax (0 + 2) ''auto''))\<rparr>]"
  let ?root = "\<lparr>Cxt = None, Op = ?F, Decl = [], Init = None, DeclId = None,
                FunctionDcl = None, SavedScope = Some \<lparr>SK = SK_Namespace, Anchor = ?F, DeclMap = []\<rparr>,
                Cxx = Some 0, First = 0, Next = 0\<rparr>"
  let ?x = "\<lambda>c. \<lparr>Cxt = Some 0, Op = typed 0 ''x'' ''auto'', Decl = ?Dcl, Init = None,
               DeclId = Some ''x'', FunctionDcl = None, SavedScope = None, Cxx = c, First = 1, Next = 1\<rparr>"
  let ?st1 = "freshSema\<lparr>Decls := [?root, ?x None],
                ScopeStack := [\<lparr>SK = SK_Namespace, Anchor = ?F, DeclMap = [1]\<rparr>],
                DeclStack := [0]\<rparr>"
  let ?tu = "\<lparr>DeclKind = K_TranslationUnit, Owner = None, Loc = None, Name = None,
              Ty = None, Storage = SC_None, Params = [], Body = None, Members = [1]\<rparr>"
  let ?vd = "\<lparr>DeclKind = K_Var, Owner = Some 0, Loc = Some (typed 0 ''x'' ''auto''),
              Name = Some ''x'', Ty = Some AutoType, Storage = SC_Static, Params = [],
              Body = None, Members = []\<rparr>"
  let ?st2 = "?st1\<lparr>Decls := [?root, ?x (Some 1)], CxxAST := [?tu, ?vd]\<rparr>"
  have ident: "identifyDecl plainBridge (startFile freshSema ?F) (typed 0 ''x'' ''auto'')
                 = Inr ?st1"
    by (simp add: run_defs elab_defs)
  have ty: "elaborateDeclType plainBridge ?st1 (typed 0 ''x'' ''auto'') = Inr (?st2, Some 1)"
    by (simp add: run_defs elab_defs)
  have h1: "Cxx (Decls ?st2 ! 1) = Some 1" by simp
  have h2: "isVarDecl ?st2 1" by (simp add: isVarDecl_def)
  have h3: "Ty (CxxAST ?st2 ! 1) = Some AutoType" by simp
  have h4: "Init (Decls ?st2 ! 1) = None" by simp
  have ini: "elaborateVariableInit plainBridge ?st2 1 = Inr ?st2"
    by (rule elaborateVariableInit_no_initializer [OF h1 h2 h3 h4])
  show ?thesis
    using ident ty ini
    by (intro exI [of _ ?st1] exI [of _ ?st2]) (simp add: freshSema_def)
qed

text \<open>
  Identification does not touch the cached function fragment or the foreign object of a
  declaration that was there before, and a declaration it creates has neither.
\<close>

lemma nth_update_total:
  "xs[i := x] ! j = (if i = j \<and> i < length xs then x else xs ! j)"
  by (cases "i < length xs") (auto simp: nth_list_update list_update_beyond)

lemma setPreviousDecl_fields:
  "FunctionDcl (Decls (setPreviousDecl st This Prev) ! d) = FunctionDcl (Decls st ! d)
   \<and> Cxx (Decls (setPreviousDecl st This Prev) ! d) = Cxx (Decls st ! d)
   \<and> length (Decls (setPreviousDecl st This Prev)) = length (Decls st)"
  by (simp add: setPreviousDecl_def Let_def nth_update_total)

lemma declareIn_fields:
  assumes "declareIn ext st S D Ini OperatorEq = Inr st1" and "d < length (Decls st1)"
  shows "if d < length (Decls st)
         then FunctionDcl (Decls st1 ! d) = FunctionDcl (Decls st ! d)
              \<and> Cxx (Decls st1 ! d) = Cxx (Decls st ! d)
         else FunctionDcl (Decls st1 ! d) = None \<and> Cxx (Decls st1 ! d) = None"
  using assms
  by (auto simp: declareIn_def Let_def addDecl_def setPreviousDecl_fields nth_append
      newDeclaration_def
      split: sum.splits if_splits list.splits option.splits simp del: findDecl.simps)

lemma identifyDecl_fields:
  assumes "identifyDecl ext st S = Inr st1" and "d < length (Decls st1)"
  shows "if d < length (Decls st)
         then FunctionDcl (Decls st1 ! d) = FunctionDcl (Decls st ! d)
              \<and> Cxx (Decls st1 ! d) = Cxx (Decls st ! d)
         else FunctionDcl (Decls st1 ! d) = None \<and> Cxx (Decls st1 ! d) = None"
proof (cases "\<exists>l Opr Args D Ini b. S = CallSyntax (AtomSyntax l Opr) Args
                \<and> unpackDeclarator st S Opr Args = Inr (Some (D, Ini, b))")
  case True
  then obtain l Opr Args D Ini b where
    S: "S = CallSyntax (AtomSyntax l Opr) Args"
    and u: "unpackDeclarator st S Opr Args = Inr (Some (D, Ini, b))"
    by blast
  have "declareIn ext st S D Ini b = Inr st1"
    using assms(1) u unfolding S by (simp add: identifyDecl_def)
  then show ?thesis
    by (rule declareIn_fields [OF _ assms(2)])
next
  case False
  then have "st1 = st"
    using assms(1)
    by (auto simp: identifyDecl_def split: Syntax.splits sum.splits option.splits)
  then show ?thesis
    using assms(2) by simp
qed

text \<open>
  C5. A declaration that identification creates has no foreign object and no cached
  function fragment, so it does not declare a function and type elaboration and
  initializer elaboration treat it as a variable. When the type elaborator gives no type,
  type elaboration of a declaration reports the error once and does nothing else: the
  state is the one the type elaborator left, with the one diagnostic added, and no
  foreign object is returned, so the foreign handle of the declaration is as the type
  elaborator left it. For a declaration that does not declare a function and whose
  foreign handle is absent, initializer elaboration returns the state as it was, both
  when it is called on the declaration and when it is called on a node that the current
  scope binds to it.
\<close>

theorem elaborate_untranslatable_type:
  "(identifyDecl ext st0 S = Inr st \<and> length (Decls st0) \<le> D \<and> D < length (Decls st)
    \<longrightarrow> \<not> declaresFunction (Decls st ! D) \<and> Cxx (Decls st ! D) = None)
   \<and> (ScopeStack st = CurScope # Parents \<and> getCurrentCxxDeclContext st = Inr Ownr
      \<and> elaborateTypeExpr ext st (Decl (Decls st ! D)) = (st1, None)
    \<longrightarrow> elaborateDecl ext st D
          = Inr (st1\<lparr>Diags := Diags st1
                        @ [(Op (Decls st1 ! D), err_failed_to_translate_type)]\<rparr>, None))
   \<and> (\<not> declaresFunction (Decls st ! D) \<and> Cxx (Decls st ! D) = None
    \<longrightarrow> elaborateDef ext st D = Inr st
        \<and> (ScopeStack st = CurScope # Parents
             \<and> findDeclSyntax (Decls st) CurScope S = Some D
           \<longrightarrow> elaborateDeclInit ext st S = Inr st))"
proof (intro conjI impI)
  assume a: "identifyDecl ext st0 S = Inr st \<and> length (Decls st0) \<le> D
               \<and> D < length (Decls st)"
  then have "FunctionDcl (Decls st ! D) = None \<and> Cxx (Decls st ! D) = None"
    using identifyDecl_fields [of ext st0 S st D] by simp
  then show "\<not> declaresFunction (Decls st ! D)" and "Cxx (Decls st ! D) = None"
    by (simp_all add: declaresFunction_def)
next
  assume "ScopeStack st = CurScope # Parents \<and> getCurrentCxxDeclContext st = Inr Ownr
      \<and> elaborateTypeExpr ext st (Decl (Decls st ! D)) = (st1, None)"
  then show "elaborateDecl ext st D
          = Inr (st1\<lparr>Diags := Diags st1
                        @ [(Op (Decls st1 ! D), err_failed_to_translate_type)]\<rparr>, None)"
    by (simp add: elaborateDecl_def elaborateFunctionDecl_def elaborateVariableDecl_def
        elaborateParameterDecl_def Report_def)
next
  assume a: "\<not> declaresFunction (Decls st ! D) \<and> Cxx (Decls st ! D) = None"
  then show def: "elaborateDef ext st D = Inr st"
    by (simp add: elaborateDef_def elaborateVariableInit_def)
  assume "ScopeStack st = CurScope # Parents
            \<and> findDeclSyntax (Decls st) CurScope S = Some D"
  then show "elaborateDeclInit ext st S = Inr st"
    using def by (simp add: elaborateDeclInit_def)
qed

theorem elaborate_untranslatable_type_witness:
  "(\<exists>st'. elaborateFile plainBridge freshSema
             (FileSyntax [functionDefinition 0 ''f'' ''float'' ''body'']) = Inr (st', 0)
          \<and> Diags st' = [(functionDefinition 0 ''f'' ''float'' ''body'',
                          err_failed_to_translate_type)]
          \<and> Cxx (Decls st' ! 1) = None \<and> CxxAST st' = CxxAST freshSema)
   \<and> (\<exists>st'. elaborateFile plainBridge freshSema (FileSyntax [typed 0 ''x'' ''float''])
               = Inr (st', 0)
            \<and> Diags st' = [(typed 0 ''x'' ''float'', err_failed_to_translate_type)]
            \<and> Cxx (Decls st' ! 1) = None \<and> CxxAST st' = CxxAST freshSema)"
proof
  let ?S = "functionDefinition 0 ''f'' ''float'' ''body''"
  let ?D = "functionOfType (0 + 1) ''f'' ''float''"
  let ?F = "FileSyntax [?S]"
  let ?Dcl = "[\<lparr>Kind = DK_Identifier, Call = None,
                Data = Data_Id (AtomSyntax (0 + 1 + 1) ''f'')\<rparr>,
              \<lparr>Kind = DK_Function,
                Call = Some (CallSyntax (AtomSyntax (0 + 1 + 1) ''f'') (ListSyntax [])),
                Data = Data_ParamInfo (ListSyntax []) None\<rparr>,
              \<lparr>Kind = DK_Type, Call = Some ?D,
                Data = Data_Type (Some (AtomSyntax (0 + 1 + 2) ''float''))\<rparr>]"
  let ?root = "\<lparr>Cxt = None, Op = ?F, Decl = [], Init = None, DeclId = None,
                FunctionDcl = None,
                SavedScope = Some \<lparr>SK = SK_Namespace, Anchor = ?F, DeclMap = []\<rparr>,
                Cxx = Some 0, First = 0, Next = 0\<rparr>"
  let ?f = "\<lparr>Cxt = Some 0, Op = ?S, Decl = ?Dcl, Init = Some (AtomSyntax (0 + 4) ''body''),
             DeclId = Some ''f'', FunctionDcl = None, SavedScope = None, Cxx = None,
             First = 1, Next = 1\<rparr>"
  let ?sc = "\<lparr>SK = SK_Namespace, Anchor = ?F, DeclMap = [1]\<rparr>"
  let ?st1 = "freshSema\<lparr>Decls := [?root, ?f], ScopeStack := [?sc], DeclStack := [0]\<rparr>"
  let ?st2 = "?st1\<lparr>Diags := [(?S, err_failed_to_translate_type)]\<rparr>"
  let ?st3 = "?st2\<lparr>ScopeStack := [], DeclStack := []\<rparr>"
  have ident1: "identifyDecl plainBridge (startFile freshSema ?F) ?S = Inr ?st1"
    by (simp add: run_defs elab_defs functionOfType_def functionDefinition_def)
  then have ident: "identifyDecls plainBridge (startFile freshSema ?F) [?S] = Inr ?st1"
    by simp
  have h0: "identifyDecl plainBridge (startFile freshSema ?F) ?S = Inr ?st1
      \<and> length (Decls (startFile freshSema ?F)) \<le> 1 \<and> 1 < length (Decls ?st1)"
    using ident1 by (simp add: run_defs elab_defs)
  have var1: "\<not> declaresFunction (Decls ?st1 ! 1) \<and> Cxx (Decls ?st1 ! 1) = None"
    by (rule elaborate_untranslatable_type [THEN conjunct1, rule_format, OF h0])
  have h: "ScopeStack ?st1 = ?sc # [] \<and> getCurrentCxxDeclContext ?st1 = Inr (Some 0)
      \<and> elaborateTypeExpr plainBridge ?st1 (Decl (Decls ?st1 ! 1)) = (?st1, None)"
    by (simp add: getCurrentCxxDeclContext_def getCurrentDecl_def plainBridge_def)
  have "elaborateDecl plainBridge ?st1 1 = Inr (?st2, None)"
    using elaborate_untranslatable_type [THEN conjunct2, THEN conjunct1, rule_format, OF h]
    by (simp add: freshSema_def)
  then have ty: "elaborateDeclTypes plainBridge ?st1 [?S] = Inr ?st2"
    by (simp add: elaborateDeclType_def findDeclSyntax_def)
  have var2: "\<not> declaresFunction (Decls ?st2 ! 1) \<and> Cxx (Decls ?st2 ! 1) = None"
    using var1 by simp
  have sc2: "ScopeStack ?st2 = ?sc # []
               \<and> findDeclSyntax (Decls ?st2) ?sc ?S = Some 1"
    by (simp add: findDeclSyntax_def)
  have "elaborateDeclInit plainBridge ?st2 ?S = Inr ?st2"
    by (rule elaborate_untranslatable_type
               [THEN conjunct2, THEN conjunct2, rule_format, OF var2,
                THEN conjunct2, rule_format, OF sc2])
  then have ini: "elaborateDeclInits plainBridge ?st2 [?S] = Inr ?st2"
    by simp
  have run: "elaborateFile plainBridge freshSema ?F = Inr (?st3, 0)"
    using ident ty ini
    by (simp add: elaborateFile_def finishFile_def leaveScope_def popDecl_def
        freshSema_def
        del: identifyDecls.simps elaborateDeclTypes.simps elaborateDeclInits.simps)
  show "\<exists>st'. elaborateFile plainBridge freshSema ?F = Inr (st', 0)
          \<and> Diags st' = [(?S, err_failed_to_translate_type)]
          \<and> Cxx (Decls st' ! 1) = None \<and> CxxAST st' = CxxAST freshSema"
    unfolding run by simp
next
  show "\<exists>st'. elaborateFile plainBridge freshSema (FileSyntax [typed 0 ''x'' ''float''])
               = Inr (st', 0)
            \<and> Diags st' = [(typed 0 ''x'' ''float'', err_failed_to_translate_type)]
            \<and> Cxx (Decls st' ! 1) = None \<and> CxxAST st' = CxxAST freshSema"
    by (simp add: run_defs elab_defs)
qed

text \<open>
  C6. The code does not do what the claim says. In parameter scope the definition form
  \<open>name ! init\<close> ends the run at an assertion; a declarator that does not start with an
  identifier ends the run at an assertion as well; and the form \<open>D = default\<close> whose
  declarator starts with an identifier (such as \<open>name : T = default\<close>) is accepted: a
  declaration holding the default as its initializer is created and bound, and no
  diagnostic is reported.
\<close>

theorem identifyDecl_parameter_scope:
  "(ScopeStack st = CurScope # Parents \<and> isParameterScope CurScope
    \<longrightarrow> identifyDecl ext st (CallSyntax (AtomSyntax l OperatorExclaim) (ListSyntax Xs))
          = Inl (Assertion ''Function definition''))
   \<and> (ScopeStack st = CurScope # Parents \<and> isParameterScope CurScope
      \<and> unpackDeclarator st (CallSyntax (AtomSyntax l Opr) Args) Opr Args
           = Inr (Some (D, Ini, OperatorEq))
      \<and> makeDeclarator0 ext st D = Inr Dcl \<and> Dcl \<noteq> [] \<and> \<not> isIdentifier Dcl
    \<longrightarrow> identifyDecl ext st (CallSyntax (AtomSyntax l Opr) Args)
          = Inl (Assertion ''Invalid parameter declaration''))
   \<and> (ScopeStack st = CurScope # Parents \<and> isParameterScope CurScope
      \<and> makeDeclarator0 ext st D = Inr Dcl \<and> isIdentifier Dcl
    \<longrightarrow> (\<exists>st'. identifyDecl ext st
                    (CallSyntax (AtomSyntax l OperatorEquals) (ListSyntax [D, Dflt])) = Inr st'
              \<and> length (Decls st') = Suc (length (Decls st))
              \<and> Init (Decls st' ! length (Decls st)) = Some Dflt
              \<and> ScopeStack st'
                   = CurScope\<lparr>DeclMap := length (Decls st) # DeclMap CurScope\<rparr> # Parents
              \<and> Diags st' = Diags st \<and> Errs st' = Errs st))"
proof (intro conjI impI)
  assume "ScopeStack st = CurScope # Parents \<and> isParameterScope CurScope"
  then show "identifyDecl ext st (CallSyntax (AtomSyntax l OperatorExclaim) (ListSyntax Xs))
               = Inl (Assertion ''Function definition'')"
    by (simp add: identifyDecl_def unpackDeclarator_def)
next
  assume "ScopeStack st = CurScope # Parents \<and> isParameterScope CurScope
      \<and> unpackDeclarator st (CallSyntax (AtomSyntax l Opr) Args) Opr Args
           = Inr (Some (D, Ini, OperatorEq))
      \<and> makeDeclarator0 ext st D = Inr Dcl \<and> Dcl \<noteq> [] \<and> \<not> isIdentifier Dcl"
  then show "identifyDecl ext st (CallSyntax (AtomSyntax l Opr) Args)
               = Inl (Assertion ''Invalid parameter declaration'')"
    by (simp add: identifyDecl_def declareIn_def)
next
  assume a: "ScopeStack st = CurScope # Parents \<and> isParameterScope CurScope
      \<and> makeDeclarator0 ext st D = Inr Dcl \<and> isIdentifier Dcl"
  let ?S = "CallSyntax (AtomSyntax l OperatorEquals) (ListSyntax [D, Dflt])"
  let ?New = "length (Decls st)"
  let ?D = "(newDeclaration ?New (getCurrentDecl st) ?S Dcl (Some Dflt))
              \<lparr>DeclId := getIdentifier Dcl\<rparr>"
  let ?st1 = "st\<lparr>Decls := Decls st @ [?D]\<rparr>"
  let ?st2 = "case findDecl (Decls ?st1) (CurScope # Parents) (getIdentifier Dcl) of
                Some OldDecl \<Rightarrow> setPreviousDecl ?st1 ?New OldDecl
              | None \<Rightarrow> ?st1"
  have notblock: "\<not> isBlockScope CurScope"
    using a by (simp add: isBlockScope_def isParameterScope_def)
  have run: "identifyDecl ext st ?S = addDecl ?st2 ?New"
    using a notblock isIdentifier_nonempty [of Dcl]
    by (simp add: identifyDecl_def unpackDeclarator_def declareIn_def Let_def
        del: findDecl.simps)
  have old: "Old < Suc ?New"
    if "findDecl (Decls ?st1) (CurScope # Parents) (getIdentifier Dcl) = Some Old" for Old
    using findDecl_valid [OF that] by simp
  show "\<exists>st'. identifyDecl ext st ?S = Inr st'
          \<and> length (Decls st') = Suc (length (Decls st))
          \<and> Init (Decls st' ! length (Decls st)) = Some Dflt
          \<and> ScopeStack st'
               = CurScope\<lparr>DeclMap := length (Decls st) # DeclMap CurScope\<rparr> # Parents
          \<and> Diags st' = Diags st \<and> Errs st' = Errs st"
    unfolding run using a old
    by (cases "findDecl (Decls ?st1) (CurScope # Parents) (getIdentifier Dcl)")
       (auto simp: addDecl_def setPreviousDecl_def Let_def nth_append newDeclaration_def
          nth_list_update simp del: findDecl.simps)
qed

theorem identifyDecl_parameter_scope_witness:
  "identifyDecl plainBridge parameterSema
     (CallSyntax (AtomSyntax 0 OperatorExclaim) (ListSyntax [AtomSyntax 1 ''x'', AtomSyntax 2 ''0'']))
     = Inl (Assertion ''Function definition'')
   \<and> identifyDecl plainBridge parameterSema
       (CallSyntax (AtomSyntax 0 OperatorColon)
          (ListSyntax [CallSyntax (AtomSyntax 1 OperatorCaret) (ListSyntax [AtomSyntax 2 ''p'']),
                       AtomSyntax 3 ''int'']))
     = Inl (Assertion ''Invalid parameter declaration'')
   \<and> (\<exists>st'. identifyDecl plainBridge parameterSema
                (CallSyntax (AtomSyntax 0 OperatorEquals)
                   (ListSyntax [typed 1 ''x'' ''int'', AtomSyntax 4 ''0''])) = Inr st'
           \<and> length (Decls st') = 1
           \<and> Init (Decls st' ! 0) = Some (AtomSyntax 4 ''0'')
           \<and> DeclMap (hd (ScopeStack st')) = [0]
           \<and> Diags st' = [] \<and> Errs st' = [])"
proof (intro conjI)
  let ?sc = "\<lparr>SK = SK_Parameter, Anchor = ListSyntax [], DeclMap = []\<rparr>"
  have sc: "ScopeStack parameterSema = ?sc # [] \<and> isParameterScope ?sc"
    by (simp add: run_defs)
  show "identifyDecl plainBridge parameterSema
          (CallSyntax (AtomSyntax 0 OperatorExclaim)
             (ListSyntax [AtomSyntax 1 ''x'', AtomSyntax 2 ''0'']))
        = Inl (Assertion ''Function definition'')"
    by (rule identifyDecl_parameter_scope [THEN conjunct1, rule_format, OF sc])
  let ?P = "CallSyntax (AtomSyntax 1 OperatorCaret) (ListSyntax [AtomSyntax 2 ''p''])"
  let ?Args = "ListSyntax [?P, AtomSyntax 3 ''int'']"
  let ?S = "CallSyntax (AtomSyntax 0 OperatorColon) ?Args"
  let ?Dcl = "[\<lparr>Kind = DK_Pointer, Call = Some ?P, Data = NoData\<rparr>,
              \<lparr>Kind = DK_Identifier, Call = None, Data = Data_Id (AtomSyntax 2 ''p'')\<rparr>,
              \<lparr>Kind = DK_Type, Call = Some ?S, Data = Data_Type (Some (AtomSyntax 3 ''int''))\<rparr>]"
  have h2: "ScopeStack parameterSema = ?sc # [] \<and> isParameterScope ?sc
      \<and> unpackDeclarator parameterSema ?S OperatorColon ?Args = Inr (Some (?S, None, False))
      \<and> makeDeclarator0 plainBridge parameterSema ?S = Inr ?Dcl \<and> ?Dcl \<noteq> []
      \<and> \<not> isIdentifier ?Dcl"
    by (simp add: run_defs)
  show "identifyDecl plainBridge parameterSema ?S = Inl (Assertion ''Invalid parameter declaration'')"
    by (rule identifyDecl_parameter_scope [THEN conjunct2, THEN conjunct1, rule_format, OF h2])
  let ?DclX = "[\<lparr>Kind = DK_Identifier, Call = None, Data = Data_Id (AtomSyntax (1 + 1) ''x'')\<rparr>,
               \<lparr>Kind = DK_Type, Call = Some (typed 1 ''x'' ''int''),
                 Data = Data_Type (Some (AtomSyntax (1 + 2) ''int''))\<rparr>]"
  have h3: "ScopeStack parameterSema = ?sc # [] \<and> isParameterScope ?sc
      \<and> makeDeclarator0 plainBridge parameterSema (typed 1 ''x'' ''int'') = Inr ?DclX
      \<and> isIdentifier ?DclX"
    by (simp add: run_defs)
  show "\<exists>st'. identifyDecl plainBridge parameterSema
                (CallSyntax (AtomSyntax 0 OperatorEquals)
                   (ListSyntax [typed 1 ''x'' ''int'', AtomSyntax 4 ''0''])) = Inr st'
           \<and> length (Decls st') = 1
           \<and> Init (Decls st' ! 0) = Some (AtomSyntax 4 ''0'')
           \<and> DeclMap (hd (ScopeStack st')) = [0]
           \<and> Diags st' = [] \<and> Errs st' = []"
    using identifyDecl_parameter_scope
            [THEN conjunct2, THEN conjunct2, rule_format, OF h3, of 0 "AtomSyntax 4 ''0''"]
    by (auto simp: parameterSema_def enterScope_def pushScope_def freshSema_def)
qed

section \<open>The file driver's passes\<close>

text \<open>
  C1. The code does not do what the claim says. For a file whose first child is a
  declaration with type whose declarator is an invocation of an invocation, such as
  \<open>f()() : T\<close>, the driver does not run the three passes: the identification pass ends
  the run at the declarator builder's cast of the callee to a leaf, so neither type
  elaboration nor initializer elaboration visits any child, whatever the other children
  of the file, the state and the collaborators are.
\<close>

theorem elaborateFile_nested_callee:
  "elaborateFile ext st
     (FileSyntax
        (CallSyntax (AtomSyntax l OperatorColon)
           (ListSyntax [CallSyntax (CallSyntax Callee Args0) Args, AtomSyntax k T]) # Rest))
   = Inl (Assertion ''cast<AtomSyntax>'')"
  by (simp add: elaborateFile_def identifyDecl_def unpackDeclarator_def declareIn_def
      makeDeclarator0_def buildTypeDeclarator_def)

end
